theory Spec2Isabelle
  imports Complex_Main "HOL-Library.Word"
begin

section \<open>Values, documents and the document store\<close>

text \<open>
  The program is a FastAPI application (\<^verbatim>\<open>src/main.py\<close>) over a MongoDB database, with its
  pydantic models in \<^verbatim>\<open>src/schemas.py\<close>. Python dictionaries and BSON documents are
  association lists from field names to values, in insertion order. A Python \<^verbatim>\<open>int\<close> is an
  unbounded \<open>int\<close>; a Python \<^verbatim>\<open>float\<close> stands for the number it denotes (the program only
  compares one with zero and stores it).
\<close>

datatype pyvalue =
    VNone
  | VStr string
  | VInt int
  | VFloat real
  | VList "pyvalue list"

type_synonym pydict = "(string \<times> pyvalue) list"

text \<open>
  The store's native identifier is the 12-byte \<^verbatim>\<open>bson.ObjectId\<close>. Every document of a
  collection carries one under \<^verbatim>\<open>_id\<close>: the program inserts documents without an
  \<^verbatim>\<open>_id\<close> of their own, so the driver or the server assigns an ObjectId.
\<close>

type_synonym objectid = "96 word"

record document =
  doc_id :: objectid
  doc_fields :: pydict

text \<open>
  The global \<^verbatim>\<open>db\<close> handle, taken to be connected: a collection name gives the documents
  of that collection in their natural order. A collection that was never written is empty.
  The state is passed explicitly; every handler returns its response together with the store
  it leaves.
\<close>

type_synonym store = "string \<Rightarrow> document list"

datatype error =
    HTTPException nat string
  | ValidationError
  | DuplicateKeyError

text \<open>The spec's names for the two errors the handlers raise on purpose.\<close>

definition InvalidIdentifier :: error where
  "InvalidIdentifier = HTTPException 400 ''Invalid id''"

fun is_NotFound :: "error \<Rightarrow> bool" where
  "is_NotFound (HTTPException code detail) = (code = 404)"
| "is_NotFound _ = False"

section \<open>ObjectId and its text form\<close>

text \<open>
  \<^verbatim>\<open>str(oid)\<close> is the 24 lower-case hexadecimal digits of the 12 bytes, and
  \<^verbatim>\<open>ObjectId(s)\<close> on a string accepts exactly a string of 24 hexadecimal digits (either
  case) and raises \<^verbatim>\<open>InvalidId\<close> on any other.
\<close>

definition hexdigits :: string where
  "hexdigits = ''0123456789abcdef''"

definition hexval :: "char \<Rightarrow> nat option" where
  "hexval c =
     (let n = (of_char c :: nat) in
      if 48 \<le> n \<and> n \<le> 57 then Some (n - 48)
      else if 97 \<le> n \<and> n \<le> 102 then Some (n - 87)
      else if 65 \<le> n \<and> n \<le> 70 then Some (n - 55)
      else None)"

fun hexlify :: "nat \<Rightarrow> nat \<Rightarrow> string" where
  "hexlify 0 n = []"
| "hexlify (Suc k) n = hexlify k (n div 16) @ [hexdigits ! (n mod 16)]"

fun fromhex :: "nat \<Rightarrow> string \<Rightarrow> nat option" where
  "fromhex acc [] = Some acc"
| "fromhex acc (c # cs) =
     (case hexval c of None \<Rightarrow> None | Some v \<Rightarrow> fromhex (16 * acc + v) cs)"

definition str_oid :: "objectid \<Rightarrow> string" where
  "str_oid oid = hexlify 24 (unat oid)"

definition ObjectId :: "string \<Rightarrow> objectid option" where
  "ObjectId s = (if length s = 24 then map_option of_nat (fromhex 0 s) else None)"

text \<open>
  \<^verbatim>\<open>
  def ensure_object_id(id_str: str) -> ObjectId:
      try:
          return ObjectId(id_str)
      except Exception:
          raise HTTPException(status_code=400, detail="Invalid id")
  \<close>
\<close>

definition ensure_object_id :: "string \<Rightarrow> error + objectid" where
  "ensure_object_id id_str =
     (case ObjectId id_str of
        Some oid \<Rightarrow> Inr oid
      | None \<Rightarrow> Inl (HTTPException 400 ''Invalid id''))"

section \<open>Driver operations used by the handlers\<close>

text \<open>\<^verbatim>\<open>collection.find_one({"_id": oid})\<close>: the first document with that identifier.\<close>

definition find_one_by_id :: "document list \<Rightarrow> objectid \<Rightarrow> document option" where
  "find_one_by_id coll oid = find (\<lambda>d. doc_id d = oid) coll"

text \<open>\<^verbatim>\<open>collection.find_one({})\<close>: the first document of the collection, if any.\<close>

definition find_one_any :: "document list \<Rightarrow> document option" where
  "find_one_any coll = (case coll of [] \<Rightarrow> None | d # _ \<Rightarrow> Some d)"

text \<open>
  The serialisation step of every handler, \<^verbatim>\<open>d["_id"] = str(d["_id"])\<close>, on the dictionary
  the driver returns for a stored document (\<^verbatim>\<open>_id\<close> first, then the fields).
\<close>

definition serialize :: "document \<Rightarrow> pydict" where
  "serialize d = (''_id'', VStr (str_oid (doc_id d))) # doc_fields d"

text \<open>
  A dictionary assignment \<^verbatim>\<open>d[k] = v\<close>: an existing key keeps its place, a new key goes last.
\<close>

fun dict_set :: "pydict \<Rightarrow> string \<Rightarrow> pyvalue \<Rightarrow> pydict" where
  "dict_set [] k v = [(k, v)]"
| "dict_set ((k', v') # kvs) k v =
     (if k' = k then (k, v) # kvs else (k', v') # dict_set kvs k v)"

text \<open>
  \<^verbatim>\<open>collection.update_one({}, {"$set": update_data}, upsert=True)\<close>: the empty filter matches
  the first document of the collection, whose fields named in \<^verbatim>\<open>update_data\<close> are set and whose
  other fields are kept. When the collection is empty the upsert inserts one document made of
  the fields of \<^verbatim>\<open>update_data\<close> alone, under a new identifier \<open>new_id\<close>.
\<close>

fun set_fields :: "pydict \<Rightarrow> pydict \<Rightarrow> pydict" where
  "set_fields fs [] = fs"
| "set_fields fs ((k, v) # kvs) = set_fields (dict_set fs k v) kvs"

definition update_one_set_upsert ::
  "document list \<Rightarrow> pydict \<Rightarrow> objectid \<Rightarrow> document list" where
  "update_one_set_upsert coll update_data new_id =
     (case coll of
        [] \<Rightarrow> [\<lparr>doc_id = new_id, doc_fields = set_fields [] update_data\<rparr>]
      | d # ds \<Rightarrow> d\<lparr>doc_fields := set_fields (doc_fields d) update_data\<rparr> # ds)"

text \<open>
  \<^verbatim>\<open>collection.insert_one(data)\<close> for a dictionary without \<^verbatim>\<open>_id\<close>: the driver generates
  the identifier \<open>new_id\<close>; the collection's unique index on \<^verbatim>\<open>_id\<close> refuses an identifier
  that is already there. The new document goes last in natural order.
\<close>

definition insert_one :: "document list \<Rightarrow> pydict \<Rightarrow> objectid \<Rightarrow> error + document list" where
  "insert_one coll data new_id =
     (if new_id \<in> doc_id ` set coll then Inl DuplicateKeyError
      else Inr (coll @ [\<lparr>doc_id = new_id, doc_fields = data\<rparr>]))"

section \<open>Persistence gateway\<close>

text \<open>
  Modelled from the spec: \<^verbatim>\<open>create_document\<close> is imported from the repository's
  \<^verbatim>\<open>database\<close> module, which is not among the source files. Section 4.2 of the spec gives it
  as "\<^verbatim>\<open>create(kind, model)\<close>: serializes the validated model to a document, inserts it,
  returns the new identifier as a string. Side effect: one insert." The serialised model
  (\<^verbatim>\<open>model_dump()\<close>) is the argument \<open>data\<close>.
\<close>

definition create_document ::
  "store \<Rightarrow> string \<Rightarrow> pydict \<Rightarrow> objectid \<Rightarrow> (error + string) \<times> store" where
  "create_document db collection_name data new_id =
     (case insert_one (db collection_name) data new_id of
        Inl e \<Rightarrow> (Inl e, db)
      | Inr coll \<Rightarrow> (Inr (str_oid new_id), db(collection_name := coll)))"

text \<open>
  Modelled from the spec: \<^verbatim>\<open>get_documents\<close> is imported from the same missing module.
  Section 4.2 of the spec gives it as "\<^verbatim>\<open>list(kind, filter)\<close>: returns all documents matching
  an exact-match filter (mapping of field name to required value; empty filter = all
  documents), in store-native order. Side effect: none."
\<close>

definition matches :: "pydict \<Rightarrow> document \<Rightarrow> bool" where
  "matches filter_dict d = list_all (\<lambda>(k, v). map_of (doc_fields d) k = Some v) filter_dict"

definition get_documents :: "store \<Rightarrow> string \<Rightarrow> pydict \<Rightarrow> document list" where
  "get_documents db collection_name filter_dict =
     filter (matches filter_dict) (db collection_name)"

section \<open>Handlers that read\<close>

text \<open>The truth value Python gives an \<^verbatim>\<open>Optional[str]\<close> in \<^verbatim>\<open>if city:\<close>.\<close>

fun truthy :: "string option \<Rightarrow> bool" where
  "truthy None = False"
| "truthy (Some s) = (s \<noteq> [])"

text \<open>
  \<^verbatim>\<open>
  @app.get("/properties")
  async def list_properties(city: Optional[str] = None, status: Optional[str] = None):
      filter_q = {}
      if city:
          filter_q["city"] = city
      if status:
          filter_q["status"] = status
      docs = get_documents("property", filter_q)
      for d in docs:
          d["_id"] = str(d["_id"])  # serialize
      return docs
  \<close>
\<close>

text \<open>The step \<^verbatim>\<open>if param: q[k] = param\<close> of both list handlers.\<close>

definition set_if_truthy :: "pydict \<Rightarrow> string \<Rightarrow> string option \<Rightarrow> pydict" where
  "set_if_truthy q k param =
     (if truthy param then (case param of None \<Rightarrow> q | Some s \<Rightarrow> dict_set q k (VStr s)) else q)"

definition list_properties ::
  "store \<Rightarrow> string option \<Rightarrow> string option \<Rightarrow> (error + pydict list) \<times> store" where
  "list_properties db city status =
     (let filter_q = [];
          filter_q = set_if_truthy filter_q ''city'' city;
          filter_q = set_if_truthy filter_q ''status'' status;
          docs = get_documents db ''property'' filter_q
      in (Inr (map serialize docs), db))"

text \<open>
  \<^verbatim>\<open>
  @app.get("/properties/{prop_id}")
  async def get_property(prop_id: str):
      oid = ensure_object_id(prop_id)
      doc = db["property"].find_one({"_id": oid})
      if not doc:
          raise HTTPException(404, "Property not found")
      doc["_id"] = str(doc["_id"])  # serialize
      return doc
  \<close>
\<close>

definition get_property :: "store \<Rightarrow> string \<Rightarrow> (error + pydict) \<times> store" where
  "get_property db prop_id =
     (case ensure_object_id prop_id of
        Inl e \<Rightarrow> (Inl e, db)
      | Inr oid \<Rightarrow>
          (case find_one_by_id (db ''property'') oid of
             None \<Rightarrow> (Inl (HTTPException 404 ''Property not found''), db)
           | Some doc \<Rightarrow> (Inr (serialize doc), db)))"

text \<open>
  \<^verbatim>\<open>
  @app.get("/offers")
  async def list_offers(property_id: Optional[str] = None):
      q = {}
      if property_id:
          q["property_id"] = property_id
      docs = get_documents("offer", q)
      for d in docs:
          d["_id"] = str(d["_id"])  # serialize
      return docs
  \<close>
\<close>

definition list_offers :: "store \<Rightarrow> string option \<Rightarrow> (error + pydict list) \<times> store" where
  "list_offers db property_id =
     (let q = [];
          q = set_if_truthy q ''property_id'' property_id;
          docs = get_documents db ''offer'' q
      in (Inr (map serialize docs), db))"

section \<open>Admin settings\<close>

text \<open>
  \<^verbatim>\<open>AdminSettings().model_dump()\<close>: the defaults of \<^verbatim>\<open>src/schemas.py\<close>, lines 39 to 43, in
  declaration order. The announcement's dash is U+2014, three bytes in UTF-8.
\<close>

definition AdminSettings_defaults :: pydict where
  "AdminSettings_defaults =
     [(''primary_color'', VStr ''#f97316''),
      (''accent_color'', VStr ''#111827''),
      (''hero_heading'', VStr ''Find your next place''),
      (''hero_subheading'', VStr ''Modern homes, transparent offers, secure management.''),
      (''announcement'',
         VStr (''New listings dropping weekly '' @ [CHR 0xE2, CHR 0x80, CHR 0x94]
               @ '' submit an offer in minutes!''))]"

text \<open>
  \<^verbatim>\<open>
  @app.get("/admin/settings")
  async def read_settings():
      doc = db["adminsettings"].find_one({})
      if not doc:
          # return defaults if not set
          return AdminSettings().model_dump()
      doc["_id"] = str(doc["_id"])  # serialize
      return doc
  \<close>
\<close>

definition read_settings :: "store \<Rightarrow> (error + pydict) \<times> store" where
  "read_settings db =
     (case find_one_any (db ''adminsettings'') of
        None \<Rightarrow> (Inr AdminSettings_defaults, db)
      | Some doc \<Rightarrow> (Inr (serialize doc), db))"

text \<open>
  \<^verbatim>\<open>
  class SettingsUpdate(BaseModel):
      primary_color: Optional[str] = None
      accent_color: Optional[str] = None
      hero_heading: Optional[str] = None
      hero_subheading: Optional[str] = None
      announcement: Optional[str] = None
  \<close>
\<close>

record SettingsUpdate =
  primary_color :: "string option"
  accent_color :: "string option"
  hero_heading :: "string option"
  hero_subheading :: "string option"
  announcement :: "string option"

fun dump_optional :: "string option \<Rightarrow> pyvalue" where
  "dump_optional None = VNone"
| "dump_optional (Some s) = VStr s"

definition SettingsUpdate_dump :: "SettingsUpdate \<Rightarrow> pydict" where
  "SettingsUpdate_dump payload =
     [(''primary_color'', dump_optional (primary_color payload)),
      (''accent_color'', dump_optional (accent_color payload)),
      (''hero_heading'', dump_optional (hero_heading payload)),
      (''hero_subheading'', dump_optional (hero_subheading payload)),
      (''announcement'', dump_optional (announcement payload))]"

text \<open>
  \<^verbatim>\<open>
  @app.put("/admin/settings")
  async def update_settings(payload: SettingsUpdate):
      update_data = {k: v for k, v in payload.model_dump().items() if v is not None}
      if not update_data:
          return await read_settings()
      db["adminsettings"].update_one({}, {"$set": update_data}, upsert=True)
      return await read_settings()
  \<close>
  \<open>new_id\<close> is the identifier the server gives the document when the upsert inserts.
\<close>

definition update_settings ::
  "store \<Rightarrow> SettingsUpdate \<Rightarrow> objectid \<Rightarrow> (error + pydict) \<times> store" where
  "update_settings db payload new_id =
     (let update_data = filter (\<lambda>(k, v). v \<noteq> VNone) (SettingsUpdate_dump payload)
      in if update_data = [] then read_settings db
         else read_settings
                (db(''adminsettings'' :=
                      update_one_set_upsert (db ''adminsettings'') update_data new_id)))"

text \<open>The value a settings payload gives the field named \<open>k\<close>, if it sets that field.\<close>

definition payload_value :: "SettingsUpdate \<Rightarrow> string \<Rightarrow> string option" where
  "payload_value payload k =
     (if k = ''primary_color'' then primary_color payload
      else if k = ''accent_color'' then accent_color payload
      else if k = ''hero_heading'' then hero_heading payload
      else if k = ''hero_subheading'' then hero_subheading payload
      else if k = ''announcement'' then announcement payload
      else None)"

text \<open>
  The value of the field named \<open>k\<close> in the stored settings document: the first document of
  the collection, the one \<^verbatim>\<open>find_one({})\<close> and \<^verbatim>\<open>update_one({}, ...)\<close> address.
\<close>

definition stored_settings :: "store \<Rightarrow> string \<Rightarrow> pyvalue option" where
  "stored_settings db k =
     (case db ''adminsettings'' of [] \<Rightarrow> None | d # ds \<Rightarrow> map_of (doc_fields d) k)"

section \<open>Schemas\<close>

text \<open>
  \<^verbatim>\<open>
  class Property(BaseModel):
      title: str = Field(..., description="Listing title")
      description: str = Field(..., description="Detailed description")
      address: str = Field(..., description="Street address")
      city: str = Field(..., description="City")
      state: str = Field(..., description="State/Province/Region")
      price: int = Field(..., ge=0, description="Price in whole currency units")
      bedrooms: int = Field(..., ge=0)
      bathrooms: float = Field(..., ge=0)
      area_sqft: int = Field(..., ge=0, description="Area in square feet")
      status: str = Field("available", description="available | under_offer | sold")
      images: List[HttpUrl] = Field(default_factory=list, description="Image gallery URLs")
      tags: List[str] = Field(default_factory=list)
  \<close>
  A validated instance is a record. The arguments of the constructor are a record of their
  own (fields \<open>p_...\<close>), in which a field with a default may be left out. Each argument already
  has the Python type of its field: pydantic's parsing of raw JSON into these types is not
  part of the model.
\<close>

record Property =
  title :: string
  description :: string
  address :: string
  city :: string
  state :: string
  price :: int
  bedrooms :: int
  bathrooms :: real
  area_sqft :: int
  status :: string
  images :: "string list"
  tags :: "string list"

record Property_kwargs =
  p_title :: string
  p_description :: string
  p_address :: string
  p_city :: string
  p_state :: string
  p_price :: int
  p_bedrooms :: int
  p_bathrooms :: real
  p_area_sqft :: int
  p_status :: "string option"
  p_images :: "string list option"
  p_tags :: "string list option"

text \<open>
  Validation of a list field: every element must validate; the validated elements are kept.
\<close>

fun validate_each :: "(string \<Rightarrow> string option) \<Rightarrow> string list \<Rightarrow> string list option" where
  "validate_each v [] = Some []"
| "validate_each v (x # xs) =
     (case v x of
        None \<Rightarrow> None
      | Some y \<Rightarrow> (case validate_each v xs of None \<Rightarrow> None | Some ys \<Rightarrow> Some (y # ys)))"

text \<open>
  The constructor \<^verbatim>\<open>Property(...)\<close>. The URL validator \<^verbatim>\<open>HttpUrl\<close> of pydantic is a parameter:
  it gives \<open>None\<close> for a malformed URL and the text of the URL otherwise. The constraints
  \<^verbatim>\<open>ge=0\<close> are the four comparisons; the text fields carry no constraint.
\<close>

definition Property_init ::
  "(string \<Rightarrow> string option) \<Rightarrow> Property_kwargs \<Rightarrow> error + Property" where
  "Property_init HttpUrl kw =
     (if \<not> p_price kw \<ge> 0 then Inl ValidationError
      else if \<not> p_bedrooms kw \<ge> 0 then Inl ValidationError
      else if \<not> p_bathrooms kw \<ge> 0 then Inl ValidationError
      else if \<not> p_area_sqft kw \<ge> 0 then Inl ValidationError
      else
        (case validate_each HttpUrl (case p_images kw of None \<Rightarrow> [] | Some us \<Rightarrow> us) of
           None \<Rightarrow> Inl ValidationError
         | Some urls \<Rightarrow>
             Inr \<lparr>title = p_title kw,
                  description = p_description kw,
                  address = p_address kw,
                  city = p_city kw,
                  state = p_state kw,
                  price = p_price kw,
                  bedrooms = p_bedrooms kw,
                  bathrooms = p_bathrooms kw,
                  area_sqft = p_area_sqft kw,
                  status = (case p_status kw of None \<Rightarrow> ''available'' | Some s \<Rightarrow> s),
                  images = urls,
                  tags = (case p_tags kw of None \<Rightarrow> [] | Some ts \<Rightarrow> ts)\<rparr>))"

text \<open>\<^verbatim>\<open>model_dump()\<close> of a property: its fields in declaration order.\<close>

definition Property_dump :: "Property \<Rightarrow> pydict" where
  "Property_dump p =
     [(''title'', VStr (title p)),
      (''description'', VStr (description p)),
      (''address'', VStr (address p)),
      (''city'', VStr (city p)),
      (''state'', VStr (state p)),
      (''price'', VInt (price p)),
      (''bedrooms'', VInt (bedrooms p)),
      (''bathrooms'', VFloat (bathrooms p)),
      (''area_sqft'', VInt (area_sqft p)),
      (''status'', VStr (Property.status p)),
      (''images'', VList (map VStr (images p))),
      (''tags'', VList (map VStr (tags p)))]"

text \<open>
  \<^verbatim>\<open>
  class Offer(BaseModel):
      property_id: str = Field(..., description="Associated property _id as string")
      full_name: str = Field(...)
      email: EmailStr
      phone: Optional[str] = None
      amount: int = Field(..., ge=0)
      message: Optional[str] = None
      status: str = Field("pending", description="pending | accepted | rejected")
  \<close>
\<close>

record Offer =
  property_id :: string
  full_name :: string
  email :: string
  phone :: "string option"
  amount :: int
  message :: "string option"
  status :: string

record Offer_kwargs =
  o_property_id :: string
  o_full_name :: string
  o_email :: string
  o_phone :: "string option"
  o_amount :: int
  o_message :: "string option"
  o_status :: "string option"

text \<open>
  The constructor \<^verbatim>\<open>Offer(...)\<close>, with the validator \<^verbatim>\<open>EmailStr\<close> as a parameter (\<open>None\<close> for
  text that is not an e-mail address).
\<close>

definition Offer_init ::
  "(string \<Rightarrow> string option) \<Rightarrow> Offer_kwargs \<Rightarrow> error + Offer" where
  "Offer_init EmailStr kw =
     (case EmailStr (o_email kw) of
        None \<Rightarrow> Inl ValidationError
      | Some addr \<Rightarrow>
          if \<not> o_amount kw \<ge> 0 then Inl ValidationError
          else
            Inr \<lparr>property_id = o_property_id kw,
                 full_name = o_full_name kw,
                 email = addr,
                 phone = o_phone kw,
                 amount = o_amount kw,
                 message = o_message kw,
                 status = (case o_status kw of None \<Rightarrow> ''pending'' | Some s \<Rightarrow> s)\<rparr>)"

definition Offer_dump :: "Offer \<Rightarrow> pydict" where
  "Offer_dump offer =
     [(''property_id'', VStr (property_id offer)),
      (''full_name'', VStr (full_name offer)),
      (''email'', VStr (email offer)),
      (''phone'', dump_optional (phone offer)),
      (''amount'', VInt (amount offer)),
      (''message'', dump_optional (message offer)),
      (''status'', VStr (Offer.status offer))]"

section \<open>Handlers that write\<close>

text \<open>
  \<^verbatim>\<open>
  @app.post("/offers")
  async def submit_offer(offer: Offer):
      # Check property exists
      oid = ensure_object_id(offer.property_id)
      if not db["property"].find_one({"_id": oid}):
          raise HTTPException(404, "Property not found for this offer")
      offer_id = create_document("offer", offer)
      return {"id": offer_id, "status": "submitted"}
  \<close>
\<close>

definition submit_offer :: "store \<Rightarrow> Offer \<Rightarrow> objectid \<Rightarrow> (error + pydict) \<times> store" where
  "submit_offer db offer new_id =
     (case ensure_object_id (property_id offer) of
        Inl e \<Rightarrow> (Inl e, db)
      | Inr oid \<Rightarrow>
          (case find_one_by_id (db ''property'') oid of
             None \<Rightarrow> (Inl (HTTPException 404 ''Property not found for this offer''), db)
           | Some doc \<Rightarrow>
               (case create_document db ''offer'' (Offer_dump offer) new_id of
                  (Inl e, db') \<Rightarrow> (Inl e, db')
                | (Inr offer_id, db') \<Rightarrow>
                    (Inr [(''id'', VStr offer_id), (''status'', VStr ''submitted'')], db'))))"

text \<open>
  The route \<^verbatim>\<open>POST /offers\<close>: the framework builds the \<^verbatim>\<open>Offer\<close> from the request body and
  answers a validation failure itself; the handler runs on a validated offer only.
\<close>

definition post_offers ::
  "(string \<Rightarrow> string option) \<Rightarrow> store \<Rightarrow> Offer_kwargs \<Rightarrow> objectid \<Rightarrow> (error + pydict) \<times> store" where
  "post_offers EmailStr db body new_id =
     (case Offer_init EmailStr body of
        Inl e \<Rightarrow> (Inl e, db)
      | Inr offer \<Rightarrow> submit_offer db offer new_id)"

text \<open>
  Modelled from the spec: the create operation of a property ("created via the create
  operation", section 3). The source has no route for it; a property is created the way
  \<^verbatim>\<open>seed_dummy_data\<close> does (lines 81 to 126), by building \<^verbatim>\<open>Property(...)\<close> and passing the
  instance to \<^verbatim>\<open>create_document("property", p)\<close>.
\<close>

definition create_property ::
  "(string \<Rightarrow> string option) \<Rightarrow> store \<Rightarrow> Property_kwargs \<Rightarrow> objectid \<Rightarrow> (error + string) \<times> store" where
  "create_property HttpUrl db kw new_id =
     (case Property_init HttpUrl kw of
        Inl e \<Rightarrow> (Inl e, db)
      | Inr p \<Rightarrow> create_document db ''property'' (Property_dump p) new_id)"

section \<open>Example data\<close>

text \<open>A store holding the second property of the seed data, under the identifier 0x..ff.\<close>

definition demo_property :: Property where
  "demo_property =
     \<lparr>title = ''Cozy Suburban Home'',
      description = ''Family-friendly neighborhood, renovated kitchen, large backyard.'',
      address = ''456 Grove St'',
      city = ''Austin'',
      state = ''TX'',
      price = 620000,
      bedrooms = 3,
      bathrooms = 2,
      area_sqft = 1800,
      Property.status = ''available'',
      images = [''https://images.unsplash.com/photo-1505692794403-34d4982f88aa''],
      tags = [''suburbs'', ''yard'']\<rparr>"

definition demo_property_doc :: document where
  "demo_property_doc = \<lparr>doc_id = 255, doc_fields = Property_dump demo_property\<rparr>"

definition demo_db :: store where
  "demo_db = (\<lambda>name. [])(''property'' := [demo_property_doc])"

text \<open>A store that also holds the settings document of the seed data.\<close>

definition demo_settings_doc :: document where
  "demo_settings_doc =
     \<lparr>doc_id = 16,
      doc_fields =
        [(''primary_color'', VStr ''#f97316''),
         (''accent_color'', VStr ''#111827''),
         (''hero_heading'', VStr ''Discover vibrant homes''),
         (''hero_subheading'', VStr ''Browse, make offers, and manage listings seamlessly.''),
         (''announcement'', VStr ''Welcome! This site uses demo data for preview.'')]\<rparr>"

definition demo_settings_db :: store where
  "demo_settings_db = demo_db(''adminsettings'' := [demo_settings_doc])"

definition demo_empty_update :: SettingsUpdate where
  "demo_empty_update =
     \<lparr>primary_color = None, accent_color = None, hero_heading = None,
      hero_subheading = None, announcement = None\<rparr>"

definition demo_update :: SettingsUpdate where
  "demo_update =
     \<lparr>primary_color = None, accent_color = None, hero_heading = None,
      hero_subheading = None, announcement = Some ''Open house on Sunday''\<rparr>"

text \<open>A store that also holds one offer on the example property.\<close>

definition demo_offer :: Offer where
  "demo_offer =
     \<lparr>property_id = ''0000000000000000000000ff'',
      full_name = ''Ada Lovelace'',
      email = ''ada@example.com'',
      phone = None,
      amount = 600000,
      message = Some ''Cash offer'',
      Offer.status = ''pending''\<rparr>"

definition demo_offer_doc :: document where
  "demo_offer_doc = \<lparr>doc_id = 32, doc_fields = Offer_dump demo_offer\<rparr>"

definition demo_full_db :: store where
  "demo_full_db = demo_settings_db(''offer'' := [demo_offer_doc])"

text \<open>The same offer on an identifier that no property carries.\<close>

definition demo_offer_missing :: Offer where
  "demo_offer_missing = demo_offer\<lparr>property_id := ''0000000000000000000000AA''\<rparr>"

text \<open>
  The constructor arguments of the example property, of a property with a negative price,
  and of one whose text fields are all empty.
\<close>

definition demo_property_kwargs :: Property_kwargs where
  "demo_property_kwargs =
     \<lparr>p_title = ''Cozy Suburban Home'',
      p_description = ''Family-friendly neighborhood, renovated kitchen, large backyard.'',
      p_address = ''456 Grove St'',
      p_city = ''Austin'',
      p_state = ''TX'',
      p_price = 620000,
      p_bedrooms = 3,
      p_bathrooms = 2,
      p_area_sqft = 1800,
      p_status = None,
      p_images = Some [''https://images.unsplash.com/photo-1505692794403-34d4982f88aa''],
      p_tags = Some [''suburbs'', ''yard'']\<rparr>"

definition demo_negative_kwargs :: Property_kwargs where
  "demo_negative_kwargs = demo_property_kwargs\<lparr>p_price := - 1\<rparr>"

definition empty_text_kwargs :: Property_kwargs where
  "empty_text_kwargs =
     \<lparr>p_title = '''',
      p_description = '''',
      p_address = '''',
      p_city = '''',
      p_state = '''',
      p_price = 100000,
      p_bedrooms = 1,
      p_bathrooms = 1,
      p_area_sqft = 500,
      p_status = None,
      p_images = None,
      p_tags = None\<rparr>"

text \<open>The constructor arguments of the example offer, and of one with a negative amount.\<close>

definition demo_offer_kwargs :: Offer_kwargs where
  "demo_offer_kwargs =
     \<lparr>o_property_id = ''0000000000000000000000ff'',
      o_full_name = ''Ada Lovelace'',
      o_email = ''ada@example.com'',
      o_phone = None,
      o_amount = 600000,
      o_message = Some ''Cash offer'',
      o_status = None\<rparr>"

definition demo_negative_offer_kwargs :: Offer_kwargs where
  "demo_negative_offer_kwargs = demo_offer_kwargs\<lparr>o_amount := - 5\<rparr>"

section \<open>Identifiers: text form and parsing\<close>

lemma hexval_hexdigits: "n < 16 \<Longrightarrow> hexval (hexdigits ! n) = Some n"
proof -
  assume "n < 16"
  then have "n \<in> {0,1,2,3,4,5,6,7,8,9,10,11,12,13,14,15}" by simp arith
  then show ?thesis
    by (auto simp: hexval_def hexdigits_def)
qed

lemma fromhex_snoc:
  "fromhex acc (xs @ [c]) =
     (case fromhex acc xs of None \<Rightarrow> None
      | Some a \<Rightarrow> (case hexval c of None \<Rightarrow> None | Some v \<Rightarrow> Some (16 * a + v)))"
  by (induction xs arbitrary: acc) (auto split: option.splits)

lemma length_hexlify: "length (hexlify k n) = k"
  by (induction k arbitrary: n) auto

lemma fromhex_hexlify: "fromhex 0 (hexlify k n) = Some (n mod 16 ^ k)"
proof (induction k arbitrary: n)
  case 0
  then show ?case by simp
next
  case (Suc k)
  have "16 * (n div 16 mod 16 ^ k) + n mod 16 = n mod (16 * 16 ^ k)"
    by (metis mod_mult2_eq)
  then show ?case
    by (simp add: fromhex_snoc Suc hexval_hexdigits)
qed

text \<open>Parsing the text form of an identifier gives the identifier back.\<close>

lemma ObjectId_str_oid: "ObjectId (str_oid oid) = Some oid"
proof -
  have "unat oid < 2 ^ 96" using unsigned_less [of oid] by simp
  then have "unat oid mod 16 ^ 24 = unat oid" by simp
  then show ?thesis
    by (simp add: ObjectId_def str_oid_def length_hexlify fromhex_hexlify)
qed

lemma str_oid_inj: "str_oid a = str_oid b \<Longrightarrow> a = b"
  by (metis ObjectId_str_oid option.inject)

lemma fromhex_None_iff: "fromhex acc s = None \<longleftrightarrow> (\<exists>c \<in> set s. hexval c = None)"
  by (induction s arbitrary: acc) (auto split: option.splits)

text \<open>A string fails to decode exactly when it is not 24 hexadecimal digits.\<close>

lemma ObjectId_None_iff:
  "ObjectId s = None \<longleftrightarrow> length s \<noteq> 24 \<or> (\<exists>c \<in> set s. hexval c = None)"
  by (simp add: ObjectId_def fromhex_None_iff)

lemma find_one_by_id_None: "find_one_by_id coll oid = None \<longleftrightarrow> oid \<notin> doc_id ` set coll"
  by (auto simp: find_one_by_id_def find_None_iff)

lemma find_one_by_id_Some:
  "find_one_by_id coll oid = Some d \<Longrightarrow> d \<in> set coll \<and> doc_id d = oid"
  by (auto simp: find_one_by_id_def find_Some_iff)

section \<open>Get Property\<close>

text \<open>
  Claim C3. Get Property fails with InvalidIdentifier (400, "Invalid id") exactly when the
  identifier string does not decode to a store identifier, and then never with NotFound; it
  fails with NotFound (404) when the string decodes to an identifier that no stored property
  carries; otherwise it returns the matching document: the dictionary made of \<^verbatim>\<open>_id\<close>, the
  text of the identifier of the first stored property with that identifier, followed by the
  fields that property stores. It never changes the store.
\<close>

theorem get_property_outcomes:
  "(fst (get_property db prop_id) = Inl InvalidIdentifier \<longleftrightarrow> ObjectId prop_id = None)
   \<and> (ObjectId prop_id = None \<longrightarrow>
        (\<forall>e. fst (get_property db prop_id) = Inl e \<longrightarrow> \<not> is_NotFound e))
   \<and> (\<forall>oid. ObjectId prop_id = Some oid \<and> oid \<notin> doc_id ` set (db ''property'') \<longrightarrow>
        fst (get_property db prop_id) = Inl (HTTPException 404 ''Property not found''))
   \<and> (\<forall>oid. ObjectId prop_id = Some oid \<and> oid \<in> doc_id ` set (db ''property'') \<longrightarrow>
        (\<exists>doc. find (\<lambda>d. doc_id d = oid) (db ''property'') = Some doc
           \<and> doc \<in> set (db ''property'') \<and> doc_id doc = oid
           \<and> fst (get_property db prop_id)
               = Inr ((''_id'', VStr (str_oid oid)) # doc_fields doc)))
   \<and> snd (get_property db prop_id) = db"
proof -
  have a: "ObjectId prop_id = None \<Longrightarrow> get_property db prop_id = (Inl InvalidIdentifier, db)"
    by (simp add: get_property_def ensure_object_id_def InvalidIdentifier_def)
  have b: "get_property db prop_id = (Inl (HTTPException 404 ''Property not found''), db)"
    if "ObjectId prop_id = Some oid" "oid \<notin> doc_id ` set (db ''property'')" for oid
    using that find_one_by_id_None [of "db ''property''" oid]
    by (simp add: get_property_def ensure_object_id_def)
  have c: "\<exists>doc. find (\<lambda>d. doc_id d = oid) (db ''property'') = Some doc
           \<and> doc \<in> set (db ''property'') \<and> doc_id doc = oid
           \<and> get_property db prop_id
               = (Inr ((''_id'', VStr (str_oid oid)) # doc_fields doc), db)"
    if "ObjectId prop_id = Some oid" "oid \<in> doc_id ` set (db ''property'')" for oid
  proof -
    from that(2) obtain doc where d: "find_one_by_id (db ''property'') oid = Some doc"
      using find_one_by_id_None [of "db ''property''" oid] by auto
    then have "find (\<lambda>d. doc_id d = oid) (db ''property'') = Some doc"
      by (simp add: find_one_by_id_def)
    with that(1) d show ?thesis
      using find_one_by_id_Some [OF d]
      by (simp add: get_property_def ensure_object_id_def serialize_def)
  qed
  show ?thesis
  proof (cases "ObjectId prop_id")
    case None
    then show ?thesis using a by (simp add: InvalidIdentifier_def)
  next
    case (Some oid)
    show ?thesis
    proof (cases "oid \<in> doc_id ` set (db ''property'')")
      case True
      with Some c [of oid] show ?thesis by (auto simp: InvalidIdentifier_def)
    next
      case False
      with Some b [of oid] show ?thesis by (auto simp: InvalidIdentifier_def)
    qed
  qed
qed

text \<open>
  The three outcomes on the example store: a malformed string, a well-formed identifier that
  is not stored, and the stored one, with the dictionary it returns.
\<close>

theorem get_property_outcomes_witness:
  "ObjectId ''abc'' = None
   \<and> fst (get_property demo_db ''abc'') = Inl (HTTPException 400 ''Invalid id'')
   \<and> ObjectId ''0000000000000000000000AA'' = Some 170
   \<and> 170 \<notin> doc_id ` set (demo_db ''property'')
   \<and> fst (get_property demo_db ''0000000000000000000000AA'')
         = Inl (HTTPException 404 ''Property not found'')
   \<and> ObjectId ''0000000000000000000000ff'' = Some 255
   \<and> 255 \<in> doc_id ` set (demo_db ''property'')
   \<and> fst (get_property demo_db ''0000000000000000000000ff'') =
       Inr [(''_id'', VStr ''0000000000000000000000ff''),
            (''title'', VStr ''Cozy Suburban Home''),
            (''description'',
               VStr ''Family-friendly neighborhood, renovated kitchen, large backyard.''),
            (''address'', VStr ''456 Grove St''),
            (''city'', VStr ''Austin''),
            (''state'', VStr ''TX''),
            (''price'', VInt 620000),
            (''bedrooms'', VInt 3),
            (''bathrooms'', VFloat 2),
            (''area_sqft'', VInt 1800),
            (''status'', VStr ''available''),
            (''images'',
               VList [VStr ''https://images.unsplash.com/photo-1505692794403-34d4982f88aa'']),
            (''tags'', VList [VStr ''suburbs'', VStr ''yard''])]"
proof -
  have a: "ObjectId ''abc'' = None" by (simp add: ObjectId_def)
  have b: "ObjectId ''0000000000000000000000AA'' = Some 170"
    by (simp add: ObjectId_def hexval_def)
  have c: "ObjectId ''0000000000000000000000ff'' = Some 255"
    by (simp add: ObjectId_def hexval_def)
  have d: "demo_db ''property'' = [demo_property_doc]" by (simp add: demo_db_def)
  have e: "doc_id demo_property_doc = 255" by (simp add: demo_property_doc_def)
  have f: "find (\<lambda>d. doc_id d = 255) (demo_db ''property'') = Some demo_property_doc"
    by (simp add: d e)
  have g: "str_oid 255 = ''0000000000000000000000ff''" by code_simp
  have q1: "170 \<notin> doc_id ` set (demo_db ''property'')" by (simp add: d e)
  have q2: "255 \<in> doc_id ` set (demo_db ''property'')" by (simp add: d e)
  note t1 = get_property_outcomes [of demo_db "''abc''"]
  note t2 = get_property_outcomes [of demo_db "''0000000000000000000000AA''"]
  note t3 = get_property_outcomes [of demo_db "''0000000000000000000000ff''"]
  from t1 a have r1: "fst (get_property demo_db ''abc'') = Inl (HTTPException 400 ''Invalid id'')"
    by (simp add: InvalidIdentifier_def)
  from t2 b q1 have r2: "fst (get_property demo_db ''0000000000000000000000AA'')
         = Inl (HTTPException 404 ''Property not found'')"
    by blast
  from t3 c q2 obtain doc where
    "find (\<lambda>d. doc_id d = 255) (demo_db ''property'') = Some doc"
    and "fst (get_property demo_db ''0000000000000000000000ff'')
          = Inr ((''_id'', VStr (str_oid 255)) # doc_fields doc)"
    by blast
  with f have r3: "fst (get_property demo_db ''0000000000000000000000ff'')
          = Inr ((''_id'', VStr (str_oid 255)) # doc_fields demo_property_doc)"
    by simp
  from a r1 b q1 r2 c q2 r3 show ?thesis
    by (simp add: g demo_property_doc_def Property_dump_def demo_property_def)
qed

section \<open>Admin settings: reading and updating\<close>

lemma map_of_dict_set: "map_of (dict_set fs k v) = (map_of fs)(k \<mapsto> v)"
  by (induction fs k v rule: dict_set.induct) auto

lemma snd_read_settings: "snd (read_settings db) = db"
  by (simp add: read_settings_def split: option.splits)

lemma update_data_empty_iff:
  "filter (\<lambda>(k, v). v \<noteq> VNone) (SettingsUpdate_dump payload) = [] \<longleftrightarrow>
     primary_color payload = None \<and> accent_color payload = None \<and> hero_heading payload = None
     \<and> hero_subheading payload = None \<and> announcement payload = None"
proof -
  have a: "dump_optional x = VNone \<longleftrightarrow> x = None" for x
    by (cases x) auto
  show ?thesis
    by (simp add: SettingsUpdate_dump_def filter_empty_conv a)
qed

lemma map_of_set_update_data:
  "map_of (set_fields fs (filter (\<lambda>(k, v). v \<noteq> VNone) (SettingsUpdate_dump payload))) k =
     (case payload_value payload k of Some s \<Rightarrow> Some (VStr s) | None \<Rightarrow> map_of fs k)"
  by (cases "primary_color payload"; cases "accent_color payload"; cases "hero_heading payload";
      cases "hero_subheading payload"; cases "announcement payload")
     (simp_all add: SettingsUpdate_dump_def payload_value_def map_of_dict_set)


lemma demo_db_adminsettings: "demo_db ''adminsettings'' = []"
  by (simp add: demo_db_def)

lemma demo_settings_db_adminsettings: "demo_settings_db ''adminsettings'' = [demo_settings_doc]"
  by (simp add: demo_settings_db_def)

text \<open>
  Claim C4. Read Settings on a store with no settings document returns exactly the default
  values of the schema for primary_color, accent_color, hero_heading, hero_subheading and
  announcement, and persists nothing: the settings collection is still empty afterwards.
  When a settings document exists, the first one is returned with the fields it stores and
  its identifier as text. The store is never changed.
\<close>

theorem read_settings_defaults:
  "(db ''adminsettings'' = [] \<longrightarrow>
      fst (read_settings db) =
        Inr [(''primary_color'', VStr ''#f97316''),
             (''accent_color'', VStr ''#111827''),
             (''hero_heading'', VStr ''Find your next place''),
             (''hero_subheading'', VStr ''Modern homes, transparent offers, secure management.''),
             (''announcement'',
                VStr (''New listings dropping weekly '' @ [CHR 0xE2, CHR 0x80, CHR 0x94]
                      @ '' submit an offer in minutes!''))]
      \<and> snd (read_settings db) ''adminsettings'' = [])
   \<and> (\<forall>d ds. db ''adminsettings'' = d # ds \<longrightarrow>
        fst (read_settings db) = Inr ((''_id'', VStr (str_oid (doc_id d))) # doc_fields d))
   \<and> snd (read_settings db) = db"
  by (cases "db ''adminsettings''")
     (simp_all add: read_settings_def find_one_any_def AdminSettings_defaults_def serialize_def)

text \<open>Both cases on the example stores.\<close>

theorem read_settings_defaults_witness:
  "demo_db ''adminsettings'' = []
   \<and> fst (read_settings demo_db) =
        Inr [(''primary_color'', VStr ''#f97316''),
             (''accent_color'', VStr ''#111827''),
             (''hero_heading'', VStr ''Find your next place''),
             (''hero_subheading'', VStr ''Modern homes, transparent offers, secure management.''),
             (''announcement'',
                VStr (''New listings dropping weekly '' @ [CHR 0xE2, CHR 0x80, CHR 0x94]
                      @ '' submit an offer in minutes!''))]
   \<and> snd (read_settings demo_db) ''adminsettings'' = []
   \<and> demo_settings_db ''adminsettings'' = [demo_settings_doc]
   \<and> fst (read_settings demo_settings_db) =
        Inr [(''_id'', VStr ''000000000000000000000010''),
             (''primary_color'', VStr ''#f97316''),
             (''accent_color'', VStr ''#111827''),
             (''hero_heading'', VStr ''Discover vibrant homes''),
             (''hero_subheading'', VStr ''Browse, make offers, and manage listings seamlessly.''),
             (''announcement'', VStr ''Welcome! This site uses demo data for preview.'')]"
proof -
  have a: "str_oid 16 = ''000000000000000000000010''" by code_simp
  show ?thesis
    using read_settings_defaults [of demo_db] read_settings_defaults [of demo_settings_db]
    by (simp add: demo_db_adminsettings demo_settings_db_adminsettings demo_settings_doc_def a)
qed

text \<open>
  Claim C10. When every field of the Update Settings payload is unset, the handler performs
  no store write: the store it leaves is the store it was given, so on a store with no
  settings document none is created. Its result is that of Read Settings: the stored
  document if there is one, the defaults otherwise.
\<close>

theorem update_settings_all_unset:
  "primary_color payload = None \<and> accent_color payload = None \<and> hero_heading payload = None
     \<and> hero_subheading payload = None \<and> announcement payload = None
   \<Longrightarrow> update_settings db payload new_id = read_settings db
       \<and> snd (update_settings db payload new_id) = db
       \<and> (db ''adminsettings'' = [] \<longrightarrow>
            snd (update_settings db payload new_id) ''adminsettings'' = []
            \<and> fst (update_settings db payload new_id) = Inr AdminSettings_defaults)"
proof -
  assume "primary_color payload = None \<and> accent_color payload = None \<and> hero_heading payload = None
     \<and> hero_subheading payload = None \<and> announcement payload = None"
  then have "filter (\<lambda>(k, v). v \<noteq> VNone) (SettingsUpdate_dump payload) = []"
    by (simp only: update_data_empty_iff)
  then have eq: "update_settings db payload new_id = read_settings db"
    by (simp add: update_settings_def)
  have "fst (read_settings db) = Inr AdminSettings_defaults" if "db ''adminsettings'' = []"
    using that by (simp add: read_settings_def find_one_any_def)
  then show ?thesis
    by (simp add: eq snd_read_settings)
qed

text \<open>The empty payload on the store without settings and on the store with settings.\<close>

theorem update_settings_all_unset_witness:
  "update_settings demo_db demo_empty_update 17 = read_settings demo_db
   \<and> snd (update_settings demo_db demo_empty_update 17) ''adminsettings'' = []
   \<and> fst (update_settings demo_db demo_empty_update 17) = Inr AdminSettings_defaults
   \<and> update_settings demo_settings_db demo_empty_update 17 = read_settings demo_settings_db
   \<and> snd (update_settings demo_settings_db demo_empty_update 17) = demo_settings_db"
proof -
  have h: "primary_color demo_empty_update = None \<and> accent_color demo_empty_update = None
     \<and> hero_heading demo_empty_update = None \<and> hero_subheading demo_empty_update = None
     \<and> announcement demo_empty_update = None"
    by (simp add: demo_empty_update_def)
  from update_settings_all_unset [OF h, of demo_db 17] demo_db_adminsettings
  have a: "update_settings demo_db demo_empty_update 17 = read_settings demo_db"
    and b: "snd (update_settings demo_db demo_empty_update 17) ''adminsettings'' = []"
    and c: "fst (update_settings demo_db demo_empty_update 17) = Inr AdminSettings_defaults"
    by blast+
  from update_settings_all_unset [OF h, of demo_settings_db 17]
  have d: "update_settings demo_settings_db demo_empty_update 17 = read_settings demo_settings_db"
    and e: "snd (update_settings demo_settings_db demo_empty_update 17) = demo_settings_db"
    by blast+
  from a b c d e show ?thesis by blast
qed

lemma stored_settings_update:
  "stored_settings (snd (update_settings db payload new_id)) k =
     (case payload_value payload k of
        Some s \<Rightarrow> Some (VStr s)
      | None \<Rightarrow> stored_settings db k)"
proof (cases "filter (\<lambda>(k, v). v \<noteq> VNone) (SettingsUpdate_dump payload) = []")
  case True
  then have "payload_value payload k = None"
    by (simp add: update_data_empty_iff payload_value_def)
  with True show ?thesis
    by (simp add: update_settings_def snd_read_settings)
next
  case False
  then show ?thesis
    by (cases "db ''adminsettings''")
       (simp_all add: update_settings_def snd_read_settings stored_settings_def
          update_one_set_upsert_def map_of_set_update_data split: option.splits)
qed

lemma update_settings_frame:
  "name \<noteq> ''adminsettings'' \<Longrightarrow> snd (update_settings db payload new_id) name = db name"
  by (simp add: update_settings_def snd_read_settings Let_def)

lemma update_settings_rest:
  "tl (snd (update_settings db payload new_id) ''adminsettings'') = tl (db ''adminsettings'')
   \<and> map doc_id (snd (update_settings db payload new_id) ''adminsettings'') =
       (if db ''adminsettings'' = []
           \<and> filter (\<lambda>(k, v). v \<noteq> VNone) (SettingsUpdate_dump payload) \<noteq> []
        then [new_id] else map doc_id (db ''adminsettings''))"
  by (cases "db ''adminsettings''")
     (simp_all add: update_settings_def snd_read_settings Let_def update_one_set_upsert_def)

lemma update_settings_rereads:
  "fst (update_settings db payload new_id) =
     fst (read_settings (snd (update_settings db payload new_id)))"
  by (simp add: update_settings_def snd_read_settings Let_def)


lemma update_data_empty_payload_value:
  "filter (\<lambda>(k, v). v \<noteq> VNone) (SettingsUpdate_dump payload) = [] \<longleftrightarrow>
     (\<forall>k. payload_value payload k = None)"
proof
  assume "filter (\<lambda>(k, v). v \<noteq> VNone) (SettingsUpdate_dump payload) = []"
  then show "\<forall>k. payload_value payload k = None"
    by (simp add: update_data_empty_iff payload_value_def)
next
  assume a: "\<forall>k. payload_value payload k = None"
  have "primary_color payload = None" using a [rule_format, of "''primary_color''"]
    by (simp add: payload_value_def)
  moreover have "accent_color payload = None" using a [rule_format, of "''accent_color''"]
    by (simp add: payload_value_def)
  moreover have "hero_heading payload = None" using a [rule_format, of "''hero_heading''"]
    by (simp add: payload_value_def)
  moreover have "hero_subheading payload = None" using a [rule_format, of "''hero_subheading''"]
    by (simp add: payload_value_def)
  moreover have "announcement payload = None" using a [rule_format, of "''announcement''"]
    by (simp add: payload_value_def)
  ultimately show "filter (\<lambda>(k, v). v \<noteq> VNone) (SettingsUpdate_dump payload) = []"
    by (simp only: update_data_empty_iff)
qed

text \<open>
  Claim C5, as amended. Update Settings merges into the stored settings document exactly the
  fields the payload sets: after the call a field of the stored document holds the payload's
  value if the payload sets it and its prior stored value otherwise. So a payload with only
  announcement set changes that field of the stored document and no other. The update is an
  upsert: when no settings document is stored, one is created under the new identifier with
  the fields the payload sets and nothing else, so the defaults Read Settings answered before
  are not in it; a non-empty collection keeps its documents' identifiers, and documents after
  the first and other collections are untouched. The response is the settings document as
  re-read from the store the update leaves: \<^verbatim>\<open>_id\<close> as text followed by the fields of the first
  stored document, or the defaults if the collection is still empty.
\<close>

theorem update_settings_merges:
  "(\<forall>k. stored_settings (snd (update_settings db payload new_id)) k =
          (case payload_value payload k of
             Some s \<Rightarrow> Some (VStr s)
           | None \<Rightarrow> stored_settings db k))
   \<and> (primary_color payload = None \<and> accent_color payload = None
        \<and> hero_heading payload = None \<and> hero_subheading payload = None
        \<and> announcement payload = Some a \<longrightarrow>
        stored_settings (snd (update_settings db payload new_id)) ''announcement'' = Some (VStr a)
        \<and> (\<forall>k. k \<noteq> ''announcement'' \<longrightarrow>
              stored_settings (snd (update_settings db payload new_id)) k = stored_settings db k))
   \<and> (\<forall>d' rest. snd (update_settings db payload new_id) ''adminsettings'' = d' # rest \<longrightarrow>
        fst (update_settings db payload new_id)
          = Inr ((''_id'', VStr (str_oid (doc_id d'))) # doc_fields d'))
   \<and> (snd (update_settings db payload new_id) ''adminsettings'' = [] \<longrightarrow>
        fst (update_settings db payload new_id) =
          Inr [(''primary_color'', VStr ''#f97316''),
               (''accent_color'', VStr ''#111827''),
               (''hero_heading'', VStr ''Find your next place''),
               (''hero_subheading'',
                  VStr ''Modern homes, transparent offers, secure management.''),
               (''announcement'',
                  VStr (''New listings dropping weekly '' @ [CHR 0xE2, CHR 0x80, CHR 0x94]
                        @ '' submit an offer in minutes!''))])
   \<and> (db ''adminsettings'' = [] \<and> (\<exists>k. payload_value payload k \<noteq> None) \<longrightarrow>
        (\<exists>fs. snd (update_settings db payload new_id) ''adminsettings''
                = [\<lparr>doc_id = new_id, doc_fields = fs\<rparr>]
            \<and> fst (update_settings db payload new_id)
                = Inr ((''_id'', VStr (str_oid new_id)) # fs)
            \<and> (\<forall>k. map_of fs k =
                  (case payload_value payload k of
                     Some s \<Rightarrow> Some (VStr s)
                   | None \<Rightarrow> None))))
   \<and> (\<forall>name. name \<noteq> ''adminsettings'' \<longrightarrow>
         snd (update_settings db payload new_id) name = db name)
   \<and> tl (snd (update_settings db payload new_id) ''adminsettings'') = tl (db ''adminsettings'')
   \<and> map doc_id (snd (update_settings db payload new_id) ''adminsettings'') =
       (if db ''adminsettings'' = [] \<and> (\<exists>k. payload_value payload k \<noteq> None)
        then [new_id] else map doc_id (db ''adminsettings''))"
proof -
  let ?U = "update_settings db payload new_id"
  have only: "stored_settings (snd ?U) ''announcement'' = Some (VStr a)
        \<and> (\<forall>k. k \<noteq> ''announcement'' \<longrightarrow> stored_settings (snd ?U) k = stored_settings db k)"
    if "primary_color payload = None \<and> accent_color payload = None
        \<and> hero_heading payload = None \<and> hero_subheading payload = None
        \<and> announcement payload = Some a"
    using that by (simp add: stored_settings_update payload_value_def)
  have ids: "map doc_id (snd ?U ''adminsettings'') =
       (if db ''adminsettings'' = [] \<and> (\<exists>k. payload_value payload k \<noteq> None)
        then [new_id] else map doc_id (db ''adminsettings''))"
    using update_settings_rest [of db payload new_id]
      update_data_empty_payload_value [of payload]
    by simp
  have reread: "fst ?U = fst (read_settings (snd ?U))"
    by (rule update_settings_rereads)
  have resp: "fst ?U = Inr ((''_id'', VStr (str_oid (doc_id d'))) # doc_fields d')"
    if "snd ?U ''adminsettings'' = d' # rest" for d' rest
    unfolding reread using that
    by (simp add: read_settings_def find_one_any_def serialize_def)
  have none: "fst ?U =
          Inr [(''primary_color'', VStr ''#f97316''),
               (''accent_color'', VStr ''#111827''),
               (''hero_heading'', VStr ''Find your next place''),
               (''hero_subheading'',
                  VStr ''Modern homes, transparent offers, secure management.''),
               (''announcement'',
                  VStr (''New listings dropping weekly '' @ [CHR 0xE2, CHR 0x80, CHR 0x94]
                        @ '' submit an offer in minutes!''))]"
    if "snd ?U ''adminsettings'' = []"
    unfolding reread using that
    by (simp add: read_settings_def find_one_any_def AdminSettings_defaults_def)
  have ups: "\<exists>fs. snd ?U ''adminsettings'' = [\<lparr>doc_id = new_id, doc_fields = fs\<rparr>]
            \<and> fst ?U = Inr ((''_id'', VStr (str_oid new_id)) # fs)
            \<and> (\<forall>k. map_of fs k =
                  (case payload_value payload k of
                     Some s \<Rightarrow> Some (VStr s)
                   | None \<Rightarrow> None))"
    if h: "db ''adminsettings'' = [] \<and> (\<exists>k. payload_value payload k \<noteq> None)"
  proof -
    from h have ne: "filter (\<lambda>(k, v). v \<noteq> VNone) (SettingsUpdate_dump payload) \<noteq> []"
      by (simp add: update_data_empty_payload_value)
    let ?fs = "set_fields [] (filter (\<lambda>(k, v). v \<noteq> VNone) (SettingsUpdate_dump payload))"
    from h ne have st: "snd ?U ''adminsettings'' = [\<lparr>doc_id = new_id, doc_fields = ?fs\<rparr>]"
      by (simp add: update_settings_def snd_read_settings update_one_set_upsert_def)
    have r: "fst ?U = Inr ((''_id'', VStr (str_oid new_id)) # ?fs)"
      using resp [OF st] by simp
    have m: "\<forall>k. map_of ?fs k =
                  (case payload_value payload k of
                     Some s \<Rightarrow> Some (VStr s)
                   | None \<Rightarrow> None)"
      by (simp add: map_of_set_update_data split: option.splits)
    from st r m show ?thesis by blast
  qed
  have frame: "\<forall>name. name \<noteq> ''adminsettings'' \<longrightarrow> snd ?U name = db name"
    by (simp add: update_settings_frame)
  have tl: "tl (snd ?U ''adminsettings'') = tl (db ''adminsettings'')"
    using update_settings_rest [of db payload new_id] by simp
  have merge: "\<forall>k. stored_settings (snd ?U) k =
          (case payload_value payload k of
             Some s \<Rightarrow> Some (VStr s)
           | None \<Rightarrow> stored_settings db k)"
    by (simp add: stored_settings_update)
  from merge only resp none ups frame tl ids show ?thesis by blast
qed

text \<open>
  An announcement-only payload on the store with settings, where the other four fields keep
  their stored values, and on the store without, where the upsert creates a document holding
  the announcement alone.
\<close>

theorem update_settings_merges_witness:
  "stored_settings demo_settings_db ''announcement''
       = Some (VStr ''Welcome! This site uses demo data for preview.'')
   \<and> stored_settings (snd (update_settings demo_settings_db demo_update 17)) ''announcement''
       = Some (VStr ''Open house on Sunday'')
   \<and> stored_settings (snd (update_settings demo_settings_db demo_update 17)) ''primary_color''
       = Some (VStr ''#f97316'')
   \<and> fst (update_settings demo_settings_db demo_update 17) =
       Inr [(''_id'', VStr ''000000000000000000000010''),
            (''primary_color'', VStr ''#f97316''),
            (''accent_color'', VStr ''#111827''),
            (''hero_heading'', VStr ''Discover vibrant homes''),
            (''hero_subheading'', VStr ''Browse, make offers, and manage listings seamlessly.''),
            (''announcement'', VStr ''Open house on Sunday'')]
   \<and> map doc_id (snd (update_settings demo_settings_db demo_update 17) ''adminsettings'') = [16]
   \<and> snd (update_settings demo_settings_db demo_update 17) ''property'' = [demo_property_doc]
   \<and> snd (update_settings demo_db demo_update 17) ''adminsettings''
       = [\<lparr>doc_id = 17, doc_fields = [(''announcement'', VStr ''Open house on Sunday'')]\<rparr>]
   \<and> fst (update_settings demo_db demo_update 17) =
       Inr [(''_id'', VStr ''000000000000000000000011''),
            (''announcement'', VStr ''Open house on Sunday'')]
   \<and> stored_settings (snd (update_settings demo_db demo_update 17)) ''primary_color'' = None"
proof -
  have h: "primary_color demo_update = None \<and> accent_color demo_update = None
        \<and> hero_heading demo_update = None \<and> hero_subheading demo_update = None
        \<and> announcement demo_update = Some ''Open house on Sunday''"
    by (simp add: demo_update_def)
  have ud: "filter (\<lambda>(k, v). v \<noteq> VNone) (SettingsUpdate_dump demo_update)
      = [(''announcement'', VStr ''Open house on Sunday'')]"
    by (simp add: SettingsUpdate_dump_def demo_update_def)
  have s1: "stored_settings demo_settings_db ''announcement''
       = Some (VStr ''Welcome! This site uses demo data for preview.'')"
    and s2: "stored_settings demo_settings_db ''primary_color'' = Some (VStr ''#f97316'')"
    by (simp_all add: stored_settings_def demo_settings_db_adminsettings demo_settings_doc_def)
  have s4: "stored_settings demo_db ''primary_color'' = None"
    by (simp add: stored_settings_def demo_db_adminsettings)
  have d: "demo_settings_db ''property'' = [demo_property_doc]"
    by (simp add: demo_settings_db_def demo_db_def)
  have i: "map doc_id (demo_settings_db ''adminsettings'') = [16]"
    by (simp add: demo_settings_db_adminsettings demo_settings_doc_def)
  have n: "demo_settings_db ''adminsettings'' \<noteq> []"
    by (simp add: demo_settings_db_adminsettings)
  have o16: "str_oid 16 = ''000000000000000000000010''" by code_simp
  have o17: "str_oid 17 = ''000000000000000000000011''" by code_simp
  have st16: "snd (update_settings demo_settings_db demo_update 17) ''adminsettings'' =
      \<lparr>doc_id = 16,
        doc_fields =
          [(''primary_color'', VStr ''#f97316''),
           (''accent_color'', VStr ''#111827''),
           (''hero_heading'', VStr ''Discover vibrant homes''),
           (''hero_subheading'', VStr ''Browse, make offers, and manage listings seamlessly.''),
           (''announcement'', VStr ''Open house on Sunday'')]\<rparr> # []"
    by (simp add: update_settings_def ud snd_read_settings update_one_set_upsert_def
        demo_settings_db_adminsettings demo_settings_doc_def)
  have st17: "snd (update_settings demo_db demo_update 17) ''adminsettings''
       = \<lparr>doc_id = 17, doc_fields = [(''announcement'', VStr ''Open house on Sunday'')]\<rparr> # []"
    by (simp add: update_settings_def ud snd_read_settings update_one_set_upsert_def
        demo_db_adminsettings)
  note t1 = update_settings_merges [of demo_settings_db demo_update 17 "''Open house on Sunday''"]
  note t2 = update_settings_merges [of demo_db demo_update 17 "''Open house on Sunday''"]
  note only1 = t1 [THEN conjunct2, THEN conjunct1, rule_format, OF h]
  note a1 = only1 [THEN conjunct1]
  note a2 = only1 [THEN conjunct2]
  from a2 s2 have a3:
    "stored_settings (snd (update_settings demo_settings_db demo_update 17)) ''primary_color''
       = Some (VStr ''#f97316'')"
    by simp
  note resp1 = t1 [THEN conjunct2, THEN conjunct2, THEN conjunct1, rule_format, OF st16]
  have a4: "fst (update_settings demo_settings_db demo_update 17) =
       Inr [(''_id'', VStr ''000000000000000000000010''),
            (''primary_color'', VStr ''#f97316''),
            (''accent_color'', VStr ''#111827''),
            (''hero_heading'', VStr ''Discover vibrant homes''),
            (''hero_subheading'', VStr ''Browse, make offers, and manage listings seamlessly.''),
            (''announcement'', VStr ''Open house on Sunday'')]"
    using resp1 by (simp add: o16)
  have a5: "map doc_id (snd (update_settings demo_settings_db demo_update 17) ''adminsettings'')
      = [16]"
    by (simp add: st16)
  note frame1 = t1 [THEN conjunct2, THEN conjunct2, THEN conjunct2, THEN conjunct2,
      THEN conjunct2, THEN conjunct1]
  from frame1 d have a6: "snd (update_settings demo_settings_db demo_update 17) ''property''
      = [demo_property_doc]"
    by simp
  note resp2 = t2 [THEN conjunct2, THEN conjunct2, THEN conjunct1, rule_format, OF st17]
  have b1: "fst (update_settings demo_db demo_update 17) =
       Inr [(''_id'', VStr ''000000000000000000000011''),
            (''announcement'', VStr ''Open house on Sunday'')]"
    using resp2 by (simp add: o17)
  note b2 = t2 [THEN conjunct2, THEN conjunct1, rule_format, OF h, THEN conjunct2]
  from b2 s4 have b3:
    "stored_settings (snd (update_settings demo_db demo_update 17)) ''primary_color'' = None"
    by simp
  from s1 a1 a3 a4 a5 a6 st17 b1 b3 show ?thesis by (simp only: simp_thms)
qed


text \<open>
  The claim as stated fails on a store without a settings document. Read Settings answers the
  defaults there; after an update that sets only the announcement, the response and the next
  Read Settings hold \<^verbatim>\<open>_id\<close> and the announcement alone, so the four fields the payload left
  unset are not at the values read before.
\<close>

theorem update_settings_empty_store_counterexample:
  "demo_db ''adminsettings'' = []
   \<and> fst (read_settings demo_db) =
       Inr [(''primary_color'', VStr ''#f97316''),
            (''accent_color'', VStr ''#111827''),
            (''hero_heading'', VStr ''Find your next place''),
            (''hero_subheading'', VStr ''Modern homes, transparent offers, secure management.''),
            (''announcement'',
               VStr (''New listings dropping weekly '' @ [CHR 0xE2, CHR 0x80, CHR 0x94]
                     @ '' submit an offer in minutes!''))]
   \<and> primary_color demo_update = None \<and> accent_color demo_update = None
   \<and> hero_heading demo_update = None \<and> hero_subheading demo_update = None
   \<and> announcement demo_update = Some ''Open house on Sunday''
   \<and> fst (update_settings demo_db demo_update 17) =
       Inr [(''_id'', VStr ''000000000000000000000011''),
            (''announcement'', VStr ''Open house on Sunday'')]
   \<and> fst (read_settings (snd (update_settings demo_db demo_update 17))) =
       Inr [(''_id'', VStr ''000000000000000000000011''),
            (''announcement'', VStr ''Open house on Sunday'')]"
proof -
  have ud: "filter (\<lambda>(k, v). v \<noteq> VNone) (SettingsUpdate_dump demo_update)
      = [(''announcement'', VStr ''Open house on Sunday'')]"
    by (simp add: SettingsUpdate_dump_def demo_update_def)
  have o17: "str_oid 17 = ''000000000000000000000011''" by code_simp
  have before: "fst (read_settings demo_db) =
       Inr [(''primary_color'', VStr ''#f97316''),
            (''accent_color'', VStr ''#111827''),
            (''hero_heading'', VStr ''Find your next place''),
            (''hero_subheading'', VStr ''Modern homes, transparent offers, secure management.''),
            (''announcement'',
               VStr (''New listings dropping weekly '' @ [CHR 0xE2, CHR 0x80, CHR 0x94]
                     @ '' submit an offer in minutes!''))]"
    by (simp add: read_settings_def find_one_any_def demo_db_adminsettings
        AdminSettings_defaults_def)
  have st: "snd (update_settings demo_db demo_update 17)
      = demo_db(''adminsettings'' :=
          [\<lparr>doc_id = 17, doc_fields = [(''announcement'', VStr ''Open house on Sunday'')]\<rparr>])"
    by (simp add: update_settings_def ud snd_read_settings update_one_set_upsert_def
        demo_db_adminsettings)
  have after: "fst (read_settings (snd (update_settings demo_db demo_update 17))) =
       Inr [(''_id'', VStr ''000000000000000000000011''),
            (''announcement'', VStr ''Open house on Sunday'')]"
    by (simp add: st read_settings_def find_one_any_def serialize_def o17)
  have resp: "fst (update_settings demo_db demo_update 17) =
       Inr [(''_id'', VStr ''000000000000000000000011''),
            (''announcement'', VStr ''Open house on Sunday'')]"
    using after by (simp only: update_settings_rereads [symmetric])
  from before resp after show ?thesis
    by (simp add: demo_db_adminsettings demo_update_def)
qed

section \<open>List handlers and identifiers at the boundary\<close>

lemma matches_properties_filter:
  "matches (set_if_truthy (set_if_truthy [] ''city'' c) ''status'' s) d \<longleftrightarrow>
     (\<forall>x. c = Some x \<and> x \<noteq> [] \<longrightarrow> map_of (doc_fields d) ''city'' = Some (VStr x))
     \<and> (\<forall>x. s = Some x \<and> x \<noteq> [] \<longrightarrow> map_of (doc_fields d) ''status'' = Some (VStr x))"
  by (cases c; cases s) (auto simp: set_if_truthy_def matches_def)

lemma matches_offers_filter:
  "matches (set_if_truthy [] ''property_id'' p) d \<longleftrightarrow>
     (\<forall>x. p = Some x \<and> x \<noteq> [] \<longrightarrow> map_of (doc_fields d) ''property_id'' = Some (VStr x))"
  by (cases p) (auto simp: set_if_truthy_def matches_def)

lemma list_properties_eq:
  "list_properties db c s =
     (Inr (map serialize (filter
        (\<lambda>d. (\<forall>x. c = Some x \<and> x \<noteq> [] \<longrightarrow> map_of (doc_fields d) ''city'' = Some (VStr x))
           \<and> (\<forall>x. s = Some x \<and> x \<noteq> [] \<longrightarrow> map_of (doc_fields d) ''status'' = Some (VStr x)))
        (db ''property''))), db)"
proof -
  have "matches (set_if_truthy (set_if_truthy [] ''city'' c) ''status'' s) =
     (\<lambda>d. (\<forall>x. c = Some x \<and> x \<noteq> [] \<longrightarrow> map_of (doc_fields d) ''city'' = Some (VStr x))
           \<and> (\<forall>x. s = Some x \<and> x \<noteq> [] \<longrightarrow> map_of (doc_fields d) ''status'' = Some (VStr x)))"
    by (rule ext) (rule matches_properties_filter)
  then show ?thesis
    by (simp add: list_properties_def get_documents_def)
qed

lemma list_offers_eq:
  "list_offers db p =
     (Inr (map serialize (filter
        (\<lambda>d. \<forall>x. p = Some x \<and> x \<noteq> [] \<longrightarrow> map_of (doc_fields d) ''property_id'' = Some (VStr x))
        (db ''offer''))), db)"
proof -
  have "matches (set_if_truthy [] ''property_id'' p) =
     (\<lambda>d. \<forall>x. p = Some x \<and> x \<noteq> [] \<longrightarrow> map_of (doc_fields d) ''property_id'' = Some (VStr x))"
    by (rule ext) (rule matches_offers_filter)
  then show ?thesis
    by (simp add: list_offers_def get_documents_def)
qed







lemma demo_full_db_colls:
  "demo_full_db ''property'' = [demo_property_doc]"
  "demo_full_db ''offer'' = [demo_offer_doc]"
  "demo_full_db ''adminsettings'' = [demo_settings_doc]"
  by (simp_all add: demo_full_db_def demo_settings_db_def demo_db_def)

lemma demo_db_property: "demo_db ''property'' = [demo_property_doc]"
  by (simp add: demo_db_def)

lemma demo_doc_fields:
  "map_of (doc_fields demo_property_doc) ''city'' = Some (VStr ''Austin'')"
  "map_of (doc_fields demo_property_doc) ''status'' = Some (VStr ''available'')"
  "map_of (doc_fields demo_offer_doc) ''property_id'' = Some (VStr ''0000000000000000000000ff'')"
  by (simp_all add: demo_property_doc_def Property_dump_def demo_property_def
      demo_offer_doc_def Offer_dump_def demo_offer_def)


text \<open>
  Claim C7, as amended. For List Properties and List Offers, each optional parameter given
  with a non-empty value adds an exact equality condition on the field of the same name; a
  parameter that is not given, or given as the empty string, adds nothing, so without
  conditions every document of the collection is returned. The result may be empty and is
  never an error; List Offers never parses its parameter, so it never fails with
  InvalidIdentifier. Neither handler changes the store.
\<close>

theorem list_filters_nonempty_params:
  "list_properties db c s =
     (Inr (map serialize (filter
        (\<lambda>d. (\<forall>x. c = Some x \<and> x \<noteq> [] \<longrightarrow> map_of (doc_fields d) ''city'' = Some (VStr x))
           \<and> (\<forall>x. s = Some x \<and> x \<noteq> [] \<longrightarrow> map_of (doc_fields d) ''status'' = Some (VStr x)))
        (db ''property''))), db)
   \<and> list_offers db p =
     (Inr (map serialize (filter
        (\<lambda>d. \<forall>x. p = Some x \<and> x \<noteq> [] \<longrightarrow> map_of (doc_fields d) ''property_id'' = Some (VStr x))
        (db ''offer''))), db)
   \<and> list_properties db None None = (Inr (map serialize (db ''property'')), db)
   \<and> list_offers db None = (Inr (map serialize (db ''offer'')), db)
   \<and> list_properties db (Some []) (Some []) = (Inr (map serialize (db ''property'')), db)
   \<and> list_offers db (Some []) = (Inr (map serialize (db ''offer'')), db)
   \<and> (\<forall>e. fst (list_properties db c s) \<noteq> Inl e)
   \<and> (\<forall>e. fst (list_offers db p) \<noteq> Inl e)
   \<and> fst (list_offers db p) \<noteq> Inl InvalidIdentifier"
  by (simp add: list_properties_eq list_offers_eq)

text \<open>
  Matching and non-matching values, the empty string, and a \<^verbatim>\<open>property_id\<close> that is no
  identifier.
\<close>

theorem list_filters_nonempty_params_witness:
  "list_properties demo_full_db (Some ''Austin'') (Some ''available'')
      = (Inr [serialize demo_property_doc], demo_full_db)
   \<and> list_properties demo_full_db (Some ''Seattle'') None = (Inr [], demo_full_db)
   \<and> list_properties demo_full_db (Some ''Austin'') (Some ''sold'') = (Inr [], demo_full_db)
   \<and> list_properties demo_full_db (Some '''') None
      = (Inr [serialize demo_property_doc], demo_full_db)
   \<and> list_offers demo_full_db (Some ''0000000000000000000000ff'')
      = (Inr [serialize demo_offer_doc], demo_full_db)
   \<and> list_offers demo_full_db (Some ''not-an-id'') = (Inr [], demo_full_db)"
proof -
  note lp = list_filters_nonempty_params [THEN conjunct1]
  note lo = list_filters_nonempty_params [THEN conjunct2, THEN conjunct1]
  show ?thesis
    by (simp add: lp [of demo_full_db] lo [of demo_full_db] demo_full_db_colls demo_doc_fields)
qed

text \<open>
  The claim as stated fails for a parameter given as the empty string: \<^verbatim>\<open>if city:\<close> is false
  for it, no condition is added, and documents whose field differs from the given value are
  returned.
\<close>

theorem list_empty_parameter_counterexample:
  "fst (list_properties demo_db (Some '''') None) = Inr [serialize demo_property_doc]
   \<and> map_of (doc_fields demo_property_doc) ''city'' = Some (VStr ''Austin'')
   \<and> map_of (doc_fields demo_property_doc) ''city'' \<noteq> Some (VStr '''')
   \<and> fst (list_properties demo_db None (Some '''')) = Inr [serialize demo_property_doc]
   \<and> map_of (doc_fields demo_property_doc) ''status'' \<noteq> Some (VStr '''')
   \<and> fst (list_offers demo_full_db (Some '''')) = Inr [serialize demo_offer_doc]
   \<and> map_of (doc_fields demo_offer_doc) ''property_id'' \<noteq> Some (VStr '''')"
  by (simp add: list_properties_eq list_offers_eq demo_db_property demo_full_db_colls
      demo_doc_fields)

section \<open>Creating documents\<close>

lemma find_one_by_id_append_new:
  "oid \<notin> doc_id ` set coll \<Longrightarrow>
     find_one_by_id (coll @ [\<lparr>doc_id = oid, doc_fields = fs\<rparr>]) oid
       = Some \<lparr>doc_id = oid, doc_fields = fs\<rparr>"
  by (induction coll) (auto simp: find_one_by_id_def)

lemma create_document_fresh:
  "new_id \<notin> doc_id ` set (db name) \<Longrightarrow>
     create_document db name data new_id =
       (Inr (str_oid new_id), db(name := db name @ [\<lparr>doc_id = new_id, doc_fields = data\<rparr>]))"
  by (simp add: create_document_def insert_one_def)

lemma create_document_duplicate:
  "new_id \<in> doc_id ` set (db name) \<Longrightarrow>
     create_document db name data new_id = (Inl DuplicateKeyError, db)"
  by (simp add: create_document_def insert_one_def)

lemma str_oid_fresh:
  "new_id \<notin> doc_id ` set coll \<Longrightarrow> str_oid new_id \<notin> (\<lambda>d. str_oid (doc_id d)) ` set coll"
  using str_oid_inj by fastforce

lemma ObjectId_nonempty: "ObjectId s = Some oid \<Longrightarrow> s \<noteq> []"
  by (auto simp: ObjectId_def split: if_splits)

lemma submit_offer_not_found:
  "ObjectId (property_id offer) = Some oid \<Longrightarrow> oid \<notin> doc_id ` set (db ''property'') \<Longrightarrow>
     submit_offer db offer new_id =
       (Inl (HTTPException 404 ''Property not found for this offer''), db)"
  using find_one_by_id_None [of "db ''property''" oid]
  by (simp add: submit_offer_def ensure_object_id_def)

lemma submit_offer_created:
  assumes "ObjectId (property_id offer) = Some oid"
    and "oid \<in> doc_id ` set (db ''property'')"
    and "new_id \<notin> doc_id ` set (db ''offer'')"
  shows "submit_offer db offer new_id =
       (Inr [(''id'', VStr (str_oid new_id)), (''status'', VStr ''submitted'')],
        db(''offer'' := db ''offer'' @ [\<lparr>doc_id = new_id, doc_fields = Offer_dump offer\<rparr>]))"
proof -
  from assms(2) obtain doc where "find_one_by_id (db ''property'') oid = Some doc"
    using find_one_by_id_None [of "db ''property''" oid] by auto
  with assms(1) show ?thesis
    by (simp add: submit_offer_def ensure_object_id_def create_document_fresh [where db = db and name = "''offer''", OF assms(3)])
qed

lemma dump_optional_case:
  "dump_optional x = (case x of None \<Rightarrow> VNone | Some s \<Rightarrow> VStr s)"
  by (cases x) simp_all

text \<open>
  Claim C2. Submit Offer with a well-formed \<^verbatim>\<open>property_id\<close> that no stored property carries
  fails with NotFound (404) and leaves the store as it was: no offer is inserted. With a
  \<^verbatim>\<open>property_id\<close> of a stored property, and an identifier from the driver that is new to the
  offer collection, it appends exactly one document holding the seven fields of the offer,
  leaves every other collection alone, and returns the text of the new identifier (the text
  of no identifier the collection held) with the status "submitted". List Offers filtered by
  that \<^verbatim>\<open>property_id\<close> then returns the offers stored before under that \<^verbatim>\<open>property_id\<close>,
  followed by the new offer: its identifier as text and its seven fields. Whenever the
  handler succeeds, the identifier was new to the collection.
\<close>

theorem submit_offer_outcomes:
  "(\<forall>oid. ObjectId (property_id offer) = Some oid \<and> oid \<notin> doc_id ` set (db ''property'') \<longrightarrow>
      fst (submit_offer db offer new_id)
        = Inl (HTTPException 404 ''Property not found for this offer'')
      \<and> snd (submit_offer db offer new_id) = db)
   \<and> (\<forall>oid. ObjectId (property_id offer) = Some oid \<and> oid \<in> doc_id ` set (db ''property'')
          \<and> new_id \<notin> doc_id ` set (db ''offer'') \<longrightarrow>
      fst (submit_offer db offer new_id)
        = Inr [(''id'', VStr (str_oid new_id)), (''status'', VStr ''submitted'')]
      \<and> snd (submit_offer db offer new_id) ''offer''
        = db ''offer'' @
            [\<lparr>doc_id = new_id,
              doc_fields =
                [(''property_id'', VStr (property_id offer)),
                 (''full_name'', VStr (full_name offer)),
                 (''email'', VStr (email offer)),
                 (''phone'', (case phone offer of None \<Rightarrow> VNone | Some x \<Rightarrow> VStr x)),
                 (''amount'', VInt (amount offer)),
                 (''message'', (case message offer of None \<Rightarrow> VNone | Some x \<Rightarrow> VStr x)),
                 (''status'', VStr (Offer.status offer))]\<rparr>]
      \<and> (\<forall>name. name \<noteq> ''offer'' \<longrightarrow> snd (submit_offer db offer new_id) name = db name)
      \<and> str_oid new_id \<notin> (\<lambda>d. str_oid (doc_id d)) ` set (db ''offer'')
      \<and> fst (list_offers (snd (submit_offer db offer new_id)) (Some (property_id offer)))
          = Inr (map (\<lambda>d. (''_id'', VStr (str_oid (doc_id d))) # doc_fields d)
                   (filter (\<lambda>d. map_of (doc_fields d) ''property_id''
                                  = Some (VStr (property_id offer)))
                      (db ''offer''))
                 @ [[(''_id'', VStr (str_oid new_id)),
                     (''property_id'', VStr (property_id offer)),
                     (''full_name'', VStr (full_name offer)),
                     (''email'', VStr (email offer)),
                     (''phone'', (case phone offer of None \<Rightarrow> VNone | Some x \<Rightarrow> VStr x)),
                     (''amount'', VInt (amount offer)),
                     (''message'', (case message offer of None \<Rightarrow> VNone | Some x \<Rightarrow> VStr x)),
                     (''status'', VStr (Offer.status offer))]]))
   \<and> ((\<exists>r. fst (submit_offer db offer new_id) = Inr r) \<longrightarrow>
        new_id \<notin> doc_id ` set (db ''offer''))"
proof -
  let ?fields = "[(''property_id'', VStr (property_id offer)),
                 (''full_name'', VStr (full_name offer)),
                 (''email'', VStr (email offer)),
                 (''phone'', (case phone offer of None \<Rightarrow> VNone | Some x \<Rightarrow> VStr x)),
                 (''amount'', VInt (amount offer)),
                 (''message'', (case message offer of None \<Rightarrow> VNone | Some x \<Rightarrow> VStr x)),
                 (''status'', VStr (Offer.status offer))]"
  have dump: "Offer_dump offer = ?fields"
    by (simp add: Offer_dump_def dump_optional_case)
  have a: "fst (submit_offer db offer new_id)
        = Inl (HTTPException 404 ''Property not found for this offer'')
      \<and> snd (submit_offer db offer new_id) = db"
    if "ObjectId (property_id offer) = Some oid \<and> oid \<notin> doc_id ` set (db ''property'')" for oid
    using that submit_offer_not_found [of offer oid db new_id] by simp
  have b: "fst (submit_offer db offer new_id)
        = Inr [(''id'', VStr (str_oid new_id)), (''status'', VStr ''submitted'')]
      \<and> snd (submit_offer db offer new_id) ''offer''
        = db ''offer'' @ [\<lparr>doc_id = new_id, doc_fields = ?fields\<rparr>]
      \<and> (\<forall>name. name \<noteq> ''offer'' \<longrightarrow> snd (submit_offer db offer new_id) name = db name)
      \<and> str_oid new_id \<notin> (\<lambda>d. str_oid (doc_id d)) ` set (db ''offer'')
      \<and> fst (list_offers (snd (submit_offer db offer new_id)) (Some (property_id offer)))
          = Inr (map (\<lambda>d. (''_id'', VStr (str_oid (doc_id d))) # doc_fields d)
                   (filter (\<lambda>d. map_of (doc_fields d) ''property_id''
                                  = Some (VStr (property_id offer)))
                      (db ''offer''))
                 @ [(''_id'', VStr (str_oid new_id)) # ?fields])"
    if h: "ObjectId (property_id offer) = Some oid \<and> oid \<in> doc_id ` set (db ''property'')
          \<and> new_id \<notin> doc_id ` set (db ''offer'')" for oid
  proof -
    from h have eq: "submit_offer db offer new_id =
       (Inr [(''id'', VStr (str_oid new_id)), (''status'', VStr ''submitted'')],
        db(''offer'' := db ''offer'' @ [\<lparr>doc_id = new_id, doc_fields = ?fields\<rparr>]))"
      using submit_offer_created [of offer oid db new_id] by (simp add: dump)
    from h have ne: "property_id offer \<noteq> []"
      using ObjectId_nonempty by blast
    from h have fresh: "str_oid new_id \<notin> (\<lambda>d. str_oid (doc_id d)) ` set (db ''offer'')"
      using str_oid_fresh by blast
    have ser: "map serialize xs = map (\<lambda>d. (''_id'', VStr (str_oid (doc_id d))) # doc_fields d) xs"
      for xs by (simp add: serialize_def)
    have listed: "fst (list_offers (snd (submit_offer db offer new_id)) (Some (property_id offer)))
          = Inr (map (\<lambda>d. (''_id'', VStr (str_oid (doc_id d))) # doc_fields d)
                   (filter (\<lambda>d. map_of (doc_fields d) ''property_id''
                                  = Some (VStr (property_id offer)))
                      (db ''offer''))
                 @ [(''_id'', VStr (str_oid new_id)) # ?fields])"
      using ne by (simp add: eq list_offers_eq ser serialize_def)
    from eq fresh listed show ?thesis by simp
  qed
  have c: "new_id \<notin> doc_id ` set (db ''offer'')"
    if "\<exists>r. fst (submit_offer db offer new_id) = Inr r"
  proof (rule ccontr)
    assume "\<not> new_id \<notin> doc_id ` set (db ''offer'')"
    then have "create_document db ''offer'' (Offer_dump offer) new_id = (Inl DuplicateKeyError, db)"
      by (simp add: create_document_duplicate)
    then have "\<exists>e. fst (submit_offer db offer new_id) = Inl e"
      by (simp add: submit_offer_def split: sum.splits option.splits)
    with that show False by auto
  qed
  from a b c show ?thesis by blast
qed

text \<open>
  An offer on a missing property and an offer on the stored one, with the store and the list
  the second leaves.
\<close>

theorem submit_offer_outcomes_witness:
  "ObjectId (property_id demo_offer_missing) = Some 170
   \<and> 170 \<notin> doc_id ` set (demo_db ''property'')
   \<and> fst (submit_offer demo_db demo_offer_missing 32)
       = Inl (HTTPException 404 ''Property not found for this offer'')
   \<and> snd (submit_offer demo_db demo_offer_missing 32) = demo_db
   \<and> ObjectId (property_id demo_offer) = Some 255
   \<and> 255 \<in> doc_id ` set (demo_db ''property'')
   \<and> 32 \<notin> doc_id ` set (demo_db ''offer'')
   \<and> fst (submit_offer demo_db demo_offer 32)
       = Inr [(''id'', VStr ''000000000000000000000020''), (''status'', VStr ''submitted'')]
   \<and> snd (submit_offer demo_db demo_offer 32) ''offer'' =
       [\<lparr>doc_id = 32,
         doc_fields =
           [(''property_id'', VStr ''0000000000000000000000ff''),
            (''full_name'', VStr ''Ada Lovelace''),
            (''email'', VStr ''ada@example.com''),
            (''phone'', VNone),
            (''amount'', VInt 600000),
            (''message'', VStr ''Cash offer''),
            (''status'', VStr ''pending'')]\<rparr>]
   \<and> snd (submit_offer demo_db demo_offer 32) ''property'' = [demo_property_doc]
   \<and> fst (list_offers (snd (submit_offer demo_db demo_offer 32))
            (Some ''0000000000000000000000ff''))
       = Inr [[(''_id'', VStr ''000000000000000000000020''),
               (''property_id'', VStr ''0000000000000000000000ff''),
               (''full_name'', VStr ''Ada Lovelace''),
               (''email'', VStr ''ada@example.com''),
               (''phone'', VNone),
               (''amount'', VInt 600000),
               (''message'', VStr ''Cash offer''),
               (''status'', VStr ''pending'')]]"
proof -
  have p1: "ObjectId (property_id demo_offer_missing) = Some 170"
    by (simp add: demo_offer_missing_def ObjectId_def hexval_def)
  have p2: "ObjectId (property_id demo_offer) = Some 255"
    by (simp add: demo_offer_def ObjectId_def hexval_def)
  have c1: "demo_db ''property'' = [demo_property_doc]" and c2: "demo_db ''offer'' = []"
    by (simp_all add: demo_db_def)
  have i: "doc_id demo_property_doc = 255" by (simp add: demo_property_doc_def)
  have q1: "170 \<notin> doc_id ` set (demo_db ''property'')" by (simp add: c1 i)
  have q2: "255 \<in> doc_id ` set (demo_db ''property'')" by (simp add: c1 i)
  have q3: "32 \<notin> doc_id ` set (demo_db ''offer'')" by (simp add: c2)
  have s: "str_oid 32 = ''000000000000000000000020''" by code_simp
  have pid: "property_id demo_offer = ''0000000000000000000000ff''"
    by (simp add: demo_offer_def)
  note t1 = submit_offer_outcomes [of demo_offer_missing demo_db 32, THEN conjunct1, rule_format, of 170]
  note t2 = submit_offer_outcomes
    [of demo_offer demo_db 32, THEN conjunct2, THEN conjunct1, rule_format, of 255]
  from t1 p1 q1 have a: "fst (submit_offer demo_db demo_offer_missing 32)
       = Inl (HTTPException 404 ''Property not found for this offer'')
      \<and> snd (submit_offer demo_db demo_offer_missing 32) = demo_db"
    by blast
  have h2: "ObjectId (property_id demo_offer) = Some 255
      \<and> 255 \<in> doc_id ` set (demo_db ''property'') \<and> 32 \<notin> doc_id ` set (demo_db ''offer'')"
    using p2 q2 q3 by simp
  note r = t2 [OF h2]
  from r have b: "fst (submit_offer demo_db demo_offer 32)
       = Inr [(''id'', VStr ''000000000000000000000020''), (''status'', VStr ''submitted'')]"
    by (simp add: s)
  from r have c: "snd (submit_offer demo_db demo_offer 32) ''offer'' =
       [\<lparr>doc_id = 32,
         doc_fields =
           [(''property_id'', VStr ''0000000000000000000000ff''),
            (''full_name'', VStr ''Ada Lovelace''),
            (''email'', VStr ''ada@example.com''),
            (''phone'', VNone),
            (''amount'', VInt 600000),
            (''message'', VStr ''Cash offer''),
            (''status'', VStr ''pending'')]\<rparr>]"
    by (simp add: c2 demo_offer_def)
  from r have d: "snd (submit_offer demo_db demo_offer 32) ''property'' = [demo_property_doc]"
    by (simp add: c1)
  from r have e: "fst (list_offers (snd (submit_offer demo_db demo_offer 32))
            (Some ''0000000000000000000000ff''))
       = Inr [[(''_id'', VStr ''000000000000000000000020''),
               (''property_id'', VStr ''0000000000000000000000ff''),
               (''full_name'', VStr ''Ada Lovelace''),
               (''email'', VStr ''ada@example.com''),
               (''phone'', VNone),
               (''amount'', VInt 600000),
               (''message'', VStr ''Cash offer''),
               (''status'', VStr ''pending'')]]"
    by (simp add: c2 s pid) (simp add: demo_offer_def)
  from p1 q1 a p2 q2 q3 b c d e show ?thesis by blast
qed

section \<open>Properties: validation and creation\<close>

lemma Property_init_Inr_iff:
  "Property_init HttpUrl kw = Inr p \<longleftrightarrow>
     0 \<le> p_price kw \<and> 0 \<le> p_bedrooms kw \<and> 0 \<le> p_bathrooms kw \<and> 0 \<le> p_area_sqft kw
     \<and> (\<exists>urls. validate_each HttpUrl (case p_images kw of None \<Rightarrow> [] | Some us \<Rightarrow> us) = Some urls
          \<and> p = \<lparr>title = p_title kw,
                  description = p_description kw,
                  address = p_address kw,
                  city = p_city kw,
                  state = p_state kw,
                  price = p_price kw,
                  bedrooms = p_bedrooms kw,
                  bathrooms = p_bathrooms kw,
                  area_sqft = p_area_sqft kw,
                  status = (case p_status kw of None \<Rightarrow> ''available'' | Some s \<Rightarrow> s),
                  images = urls,
                  tags = (case p_tags kw of None \<Rightarrow> [] | Some ts \<Rightarrow> ts)\<rparr>)"
  by (auto simp: Property_init_def split: option.splits)

lemma get_after_create:
  assumes "new_id \<notin> doc_id ` set (db ''property'')"
  shows "get_property (snd (create_document db ''property'' data new_id)) (str_oid new_id) =
      (Inr ((''_id'', VStr (str_oid new_id)) # data),
       snd (create_document db ''property'' data new_id))"
  using find_one_by_id_append_new [OF assms, of data]
  by (simp add: create_document_fresh [where db = db and name = "''property''", OF assms]
      get_property_def ensure_object_id_def ObjectId_str_oid serialize_def)

text \<open>
  Claim C1. The input is a validated Property instance, the argument of the create operation.
  Whenever creating it succeeds, the identifier returned is the text of one the collection
  did not hold, and getting the property by it yields the dictionary made of \<^verbatim>\<open>_id\<close>, that
  identifier, followed by the twelve fields title, description, address, city, state, price,
  bedrooms, bathrooms, area_sqft, status, images and tags, each equal to the instance's;
  \<^verbatim>\<open>_id\<close> is none of these business fields. Exactly one document is appended to the property
  collection and no other collection changes. Creating succeeds whenever the identifier the
  driver generates is new to the collection.
\<close>

theorem create_then_get_property:
  "(\<forall>ident. fst (create_document db ''property'' (Property_dump p) new_id) = Inr ident \<longrightarrow>
      ident = str_oid new_id
      \<and> new_id \<notin> doc_id ` set (db ''property'')
      \<and> ident \<notin> (\<lambda>d. str_oid (doc_id d)) ` set (db ''property'')
      \<and> fst (get_property (snd (create_document db ''property'' (Property_dump p) new_id))
               ident)
          = Inr [(''_id'', VStr ident),
                 (''title'', VStr (title p)),
                 (''description'', VStr (description p)),
                 (''address'', VStr (address p)),
                 (''city'', VStr (city p)),
                 (''state'', VStr (state p)),
                 (''price'', VInt (price p)),
                 (''bedrooms'', VInt (bedrooms p)),
                 (''bathrooms'', VFloat (bathrooms p)),
                 (''area_sqft'', VInt (area_sqft p)),
                 (''status'', VStr (Property.status p)),
                 (''images'', VList (map VStr (images p))),
                 (''tags'', VList (map VStr (tags p)))]
      \<and> snd (create_document db ''property'' (Property_dump p) new_id) ''property''
          = db ''property'' @
              [\<lparr>doc_id = new_id,
                doc_fields =
                  [(''title'', VStr (title p)),
                   (''description'', VStr (description p)),
                   (''address'', VStr (address p)),
                   (''city'', VStr (city p)),
                   (''state'', VStr (state p)),
                   (''price'', VInt (price p)),
                   (''bedrooms'', VInt (bedrooms p)),
                   (''bathrooms'', VFloat (bathrooms p)),
                   (''area_sqft'', VInt (area_sqft p)),
                   (''status'', VStr (Property.status p)),
                   (''images'', VList (map VStr (images p))),
                   (''tags'', VList (map VStr (tags p)))]\<rparr>]
      \<and> (\<forall>name. name \<noteq> ''property'' \<longrightarrow>
            snd (create_document db ''property'' (Property_dump p) new_id) name = db name))
   \<and> (new_id \<notin> doc_id ` set (db ''property'') \<longrightarrow>
        fst (create_document db ''property'' (Property_dump p) new_id) = Inr (str_oid new_id))
   \<and> ''_id'' \<notin> set [''title'', ''description'', ''address'', ''city'', ''state'', ''price'',
                      ''bedrooms'', ''bathrooms'', ''area_sqft'', ''status'', ''images'',
                      ''tags'']"
proof -
  let ?fields = "[(''title'', VStr (title p)),
                   (''description'', VStr (description p)),
                   (''address'', VStr (address p)),
                   (''city'', VStr (city p)),
                   (''state'', VStr (state p)),
                   (''price'', VInt (price p)),
                   (''bedrooms'', VInt (bedrooms p)),
                   (''bathrooms'', VFloat (bathrooms p)),
                   (''area_sqft'', VInt (area_sqft p)),
                   (''status'', VStr (Property.status p)),
                   (''images'', VList (map VStr (images p))),
                   (''tags'', VList (map VStr (tags p)))]"
  let ?c = "create_document db ''property'' (Property_dump p) new_id"
  have dump: "Property_dump p = ?fields"
    by (simp add: Property_dump_def)
  have ok: "?c = (Inr (str_oid new_id),
        db(''property'' := db ''property'' @ [\<lparr>doc_id = new_id, doc_fields = ?fields\<rparr>]))"
    if h: "new_id \<notin> doc_id ` set (db ''property'')"
    by (simp add: create_document_fresh [where db = db and name = "''property''", OF h] dump)
  have fresh: "new_id \<notin> doc_id ` set (db ''property'')" if "fst ?c = Inr ident" for ident
  proof (rule ccontr)
    assume "\<not> new_id \<notin> doc_id ` set (db ''property'')"
    then have "?c = (Inl DuplicateKeyError, db)"
      by (simp add: create_document_duplicate)
    with that show False by simp
  qed
  have a: "ident = str_oid new_id
      \<and> new_id \<notin> doc_id ` set (db ''property'')
      \<and> ident \<notin> (\<lambda>d. str_oid (doc_id d)) ` set (db ''property'')
      \<and> fst (get_property (snd ?c) ident) = Inr ((''_id'', VStr ident) # ?fields)
      \<and> snd ?c ''property'' = db ''property'' @ [\<lparr>doc_id = new_id, doc_fields = ?fields\<rparr>]
      \<and> (\<forall>name. name \<noteq> ''property'' \<longrightarrow> snd ?c name = db name)"
    if r: "fst ?c = Inr ident" for ident
  proof -
    note h = fresh [OF r]
    note eq = ok [OF h]
    from r have i: "ident = str_oid new_id" by (simp only: eq fst_conv sum.inject)
    have g: "fst (get_property (snd ?c) (str_oid new_id))
        = Inr ((''_id'', VStr (str_oid new_id)) # Property_dump p)"
      by (simp only: get_after_create [where db = db and data = "Property_dump p", OF h]
          fst_conv)
    have g': "fst (get_property (snd ?c) ident) = Inr ((''_id'', VStr ident) # ?fields)"
      using g by (simp only: i dump)
    have st: "snd ?c ''property''
        = db ''property'' @ [\<lparr>doc_id = new_id, doc_fields = ?fields\<rparr>]"
      by (simp only: eq snd_conv fun_upd_same)
    have fr: "\<forall>name. name \<noteq> ''property'' \<longrightarrow> snd ?c name = db name"
      by (simp only: eq snd_conv) simp
    have nf: "ident \<notin> (\<lambda>d. str_oid (doc_id d)) ` set (db ''property'')"
      unfolding i by (rule str_oid_fresh [OF h])
    from i h nf g' st fr show ?thesis by blast
  qed
  have b: "fst ?c = Inr (str_oid new_id)" if "new_id \<notin> doc_id ` set (db ''property'')"
    by (simp only: ok [OF that] fst_conv)
  have k: "''_id'' \<notin> set [''title'', ''description'', ''address'', ''city'', ''state'', ''price'',
                      ''bedrooms'', ''bathrooms'', ''area_sqft'', ''status'', ''images'',
                      ''tags'']"
    by simp
  from a b k show ?thesis by blast
qed

lemma demo_property_init: "Property_init Some demo_property_kwargs = Inr demo_property"
  by (simp add: Property_init_def demo_property_kwargs_def demo_property_def)

text \<open>Creating the example property again, under the identifier 1, and getting it.\<close>

theorem create_then_get_property_witness:
  "1 \<notin> doc_id ` set (demo_db ''property'')
   \<and> fst (create_document demo_db ''property'' (Property_dump demo_property) 1)
       = Inr ''000000000000000000000001''
   \<and> fst (get_property
            (snd (create_document demo_db ''property'' (Property_dump demo_property) 1))
            ''000000000000000000000001'') =
       Inr [(''_id'', VStr ''000000000000000000000001''),
            (''title'', VStr ''Cozy Suburban Home''),
            (''description'',
               VStr ''Family-friendly neighborhood, renovated kitchen, large backyard.''),
            (''address'', VStr ''456 Grove St''),
            (''city'', VStr ''Austin''),
            (''state'', VStr ''TX''),
            (''price'', VInt 620000),
            (''bedrooms'', VInt 3),
            (''bathrooms'', VFloat 2),
            (''area_sqft'', VInt 1800),
            (''status'', VStr ''available''),
            (''images'',
               VList [VStr ''https://images.unsplash.com/photo-1505692794403-34d4982f88aa'']),
            (''tags'', VList [VStr ''suburbs'', VStr ''yard''])]
   \<and> map doc_id
        (snd (create_document demo_db ''property'' (Property_dump demo_property) 1) ''property'')
       = [255, 1]"
proof -
  have c1: "demo_db ''property'' = [demo_property_doc]" by (simp add: demo_db_def)
  have f: "1 \<notin> doc_id ` set (demo_db ''property'')"
    by (simp add: c1 demo_property_doc_def)
  have s: "str_oid 1 = ''000000000000000000000001''" by code_simp
  note t = create_then_get_property [of demo_db demo_property 1]
  note t2 = t [THEN conjunct2, THEN conjunct1, rule_format, OF f]
  from t2 have a: "fst (create_document demo_db ''property'' (Property_dump demo_property) 1)
       = Inr ''000000000000000000000001''"
    by (simp only: s)
  note r = t [THEN conjunct1, rule_format, OF a]
  note rget = r [THEN conjunct2, THEN conjunct2, THEN conjunct2, THEN conjunct1]
  note rsnd = r [THEN conjunct2, THEN conjunct2, THEN conjunct2, THEN conjunct2, THEN conjunct1]
  have sel: "title demo_property = ''Cozy Suburban Home''"
    "description demo_property
       = ''Family-friendly neighborhood, renovated kitchen, large backyard.''"
    "address demo_property = ''456 Grove St''"
    "city demo_property = ''Austin''"
    "state demo_property = ''TX''"
    "price demo_property = 620000"
    "bedrooms demo_property = 3"
    "bathrooms demo_property = 2"
    "area_sqft demo_property = 1800"
    "Property.status demo_property = ''available''"
    "images demo_property = [''https://images.unsplash.com/photo-1505692794403-34d4982f88aa'']"
    "tags demo_property = [''suburbs'', ''yard'']"
    by (simp_all add: demo_property_def)
  have b: "fst (get_property
            (snd (create_document demo_db ''property'' (Property_dump demo_property) 1))
            ''000000000000000000000001'') =
       Inr [(''_id'', VStr ''000000000000000000000001''),
            (''title'', VStr ''Cozy Suburban Home''),
            (''description'',
               VStr ''Family-friendly neighborhood, renovated kitchen, large backyard.''),
            (''address'', VStr ''456 Grove St''),
            (''city'', VStr ''Austin''),
            (''state'', VStr ''TX''),
            (''price'', VInt 620000),
            (''bedrooms'', VInt 3),
            (''bathrooms'', VFloat 2),
            (''area_sqft'', VInt 1800),
            (''status'', VStr ''available''),
            (''images'',
               VList [VStr ''https://images.unsplash.com/photo-1505692794403-34d4982f88aa'']),
            (''tags'', VList [VStr ''suburbs'', VStr ''yard''])]"
    using rget by (simp only: sel list.map)
  have c: "map doc_id
        (snd (create_document demo_db ''property'' (Property_dump demo_property) 1) ''property'')
       = [255, 1]"
    by (simp only: rsnd c1) (simp add: demo_property_doc_def)
  from f a b c show ?thesis by blast
qed

lemma Offer_init_Inr_iff:
  "Offer_init EmailStr kw = Inr offer \<longleftrightarrow>
     0 \<le> o_amount kw
     \<and> (\<exists>addr. EmailStr (o_email kw) = Some addr
          \<and> offer = \<lparr>property_id = o_property_id kw,
                      full_name = o_full_name kw,
                      email = addr,
                      phone = o_phone kw,
                      amount = o_amount kw,
                      message = o_message kw,
                      status = (case o_status kw of None \<Rightarrow> ''pending'' | Some s \<Rightarrow> s)\<rparr>)"
  by (auto simp: Offer_init_def split: option.splits)

lemma Property_init_negative:
  "p_price kw < 0 \<or> p_bedrooms kw < 0 \<or> p_bathrooms kw < 0 \<or> p_area_sqft kw < 0
   \<Longrightarrow> Property_init HttpUrl kw = Inl ValidationError"
  by (auto simp: Property_init_def)

lemma Offer_init_negative:
  "o_amount kw < 0 \<Longrightarrow> Offer_init EmailStr kw = Inl ValidationError"
  by (auto simp: Offer_init_def split: option.splits)

text \<open>
  Claim C6. A negative price, bedrooms, bathrooms or area_sqft makes the construction of a
  Property fail with a validation error, and a negative amount that of an Offer; the failure
  comes before any store write, so creating the property or posting the offer leaves the
  store as it was. Non-negative values satisfy the constraints: construction succeeds exactly
  when the numbers are non-negative and the URL (for an offer, the e-mail) validator accepts
  its input.
\<close>

theorem negative_numbers_rejected:
  "(p_price kw < 0 \<or> p_bedrooms kw < 0 \<or> p_bathrooms kw < 0 \<or> p_area_sqft kw < 0 \<longrightarrow>
      Property_init HttpUrl kw = Inl ValidationError
      \<and> create_property HttpUrl db kw new_id = (Inl ValidationError, db))
   \<and> (o_amount okw < 0 \<longrightarrow>
      Offer_init EmailStr okw = Inl ValidationError
      \<and> post_offers EmailStr db okw new_id = (Inl ValidationError, db))
   \<and> ((\<exists>p. Property_init HttpUrl kw = Inr p) \<longleftrightarrow>
        0 \<le> p_price kw \<and> 0 \<le> p_bedrooms kw \<and> 0 \<le> p_bathrooms kw \<and> 0 \<le> p_area_sqft kw
        \<and> validate_each HttpUrl (case p_images kw of None \<Rightarrow> [] | Some us \<Rightarrow> us) \<noteq> None)
   \<and> ((\<exists>offer. Offer_init EmailStr okw = Inr offer) \<longleftrightarrow>
        0 \<le> o_amount okw \<and> EmailStr (o_email okw) \<noteq> None)"
proof -
  have a: "Property_init HttpUrl kw = Inl ValidationError
      \<and> create_property HttpUrl db kw new_id = (Inl ValidationError, db)"
    if "p_price kw < 0 \<or> p_bedrooms kw < 0 \<or> p_bathrooms kw < 0 \<or> p_area_sqft kw < 0"
    using Property_init_negative [OF that, of HttpUrl]
    by (simp add: create_property_def)
  have b: "Offer_init EmailStr okw = Inl ValidationError
      \<and> post_offers EmailStr db okw new_id = (Inl ValidationError, db)"
    if "o_amount okw < 0"
    using Offer_init_negative [OF that, of EmailStr]
    by (simp add: post_offers_def)
  have c: "(\<exists>p. Property_init HttpUrl kw = Inr p) \<longleftrightarrow>
        0 \<le> p_price kw \<and> 0 \<le> p_bedrooms kw \<and> 0 \<le> p_bathrooms kw \<and> 0 \<le> p_area_sqft kw
        \<and> validate_each HttpUrl (case p_images kw of None \<Rightarrow> [] | Some us \<Rightarrow> us) \<noteq> None"
    by (auto simp: Property_init_Inr_iff)
  have d: "(\<exists>offer. Offer_init EmailStr okw = Inr offer) \<longleftrightarrow>
        0 \<le> o_amount okw \<and> EmailStr (o_email okw) \<noteq> None"
    by (auto simp: Offer_init_Inr_iff)
  from a b c d show ?thesis by blast
qed

text \<open>A negative price, a negative amount, and the valid example payloads.\<close>

theorem negative_numbers_rejected_witness:
  "p_price demo_negative_kwargs < 0
   \<and> Property_init Some demo_negative_kwargs = Inl ValidationError
   \<and> create_property Some demo_db demo_negative_kwargs 1 = (Inl ValidationError, demo_db)
   \<and> o_amount demo_negative_offer_kwargs < 0
   \<and> Offer_init Some demo_negative_offer_kwargs = Inl ValidationError
   \<and> post_offers Some demo_db demo_negative_offer_kwargs 1 = (Inl ValidationError, demo_db)
   \<and> (\<exists>p. Property_init Some demo_property_kwargs = Inr p)
   \<and> (\<exists>offer. Offer_init Some demo_offer_kwargs = Inr offer)"
proof -
  have n1: "p_price demo_negative_kwargs < 0"
    by (simp add: demo_negative_kwargs_def)
  have n2: "o_amount demo_negative_offer_kwargs < 0"
    by (simp add: demo_negative_offer_kwargs_def)
  have v1: "0 \<le> p_price demo_property_kwargs \<and> 0 \<le> p_bedrooms demo_property_kwargs
      \<and> 0 \<le> p_bathrooms demo_property_kwargs \<and> 0 \<le> p_area_sqft demo_property_kwargs
      \<and> validate_each Some (case p_images demo_property_kwargs of None \<Rightarrow> [] | Some us \<Rightarrow> us)
          \<noteq> None"
    by (simp add: demo_property_kwargs_def)
  have v2: "0 \<le> o_amount demo_offer_kwargs \<and> Some (o_email demo_offer_kwargs) \<noteq> None"
    by (simp add: demo_offer_kwargs_def)
  note t1 = negative_numbers_rejected
    [where kw = demo_negative_kwargs and HttpUrl = Some and db = demo_db and new_id = 1
       and okw = demo_negative_offer_kwargs and EmailStr = Some]
  note t2 = negative_numbers_rejected
    [where kw = demo_property_kwargs and HttpUrl = Some and db = demo_db and new_id = 1
       and okw = demo_offer_kwargs and EmailStr = Some]
  from t1 n1 have a: "Property_init Some demo_negative_kwargs = Inl ValidationError"
    and b: "create_property Some demo_db demo_negative_kwargs 1 = (Inl ValidationError, demo_db)"
    by blast+
  from t1 n2 have c: "Offer_init Some demo_negative_offer_kwargs = Inl ValidationError"
    and d: "post_offers Some demo_db demo_negative_offer_kwargs 1 = (Inl ValidationError, demo_db)"
    by blast+
  from t2 v1 have e: "\<exists>p. Property_init Some demo_property_kwargs = Inr p" by blast
  from t2 v2 have f: "\<exists>offer. Offer_init Some demo_offer_kwargs = Inr offer" by blast
  from n1 a b n2 c d e f show ?thesis by blast
qed

text \<open>
  Claim C8, as amended. The fields title, description, address, city and state of a Property
  are required text without a length constraint: whether a payload validates does not depend
  on them, an accepted payload keeps them as given, and a payload whose numeric and URL
  fields are valid is accepted when all five are the empty string. Creating the property
  from an accepted payload, under an identifier new to the collection, appends one document
  whose five text fields are the payload's.
\<close>

theorem text_fields_unconstrained:
  "((\<exists>p. Property_init HttpUrl
            (kw\<lparr>p_title := t, p_description := d, p_address := a, p_city := c, p_state := s\<rparr>)
          = Inr p)
      \<longleftrightarrow> (\<exists>p. Property_init HttpUrl kw = Inr p))
   \<and> (Property_init HttpUrl kw = Inr p \<longrightarrow>
        title p = p_title kw \<and> description p = p_description kw \<and> address p = p_address kw
        \<and> city p = p_city kw \<and> state p = p_state kw)
   \<and> (0 \<le> p_price kw \<and> 0 \<le> p_bedrooms kw \<and> 0 \<le> p_bathrooms kw \<and> 0 \<le> p_area_sqft kw
        \<and> validate_each HttpUrl (case p_images kw of None \<Rightarrow> [] | Some us \<Rightarrow> us) \<noteq> None \<longrightarrow>
        (\<exists>p. Property_init HttpUrl
                (kw\<lparr>p_title := [], p_description := [], p_address := [], p_city := [],
                    p_state := []\<rparr>) = Inr p
             \<and> title p = [] \<and> description p = [] \<and> address p = [] \<and> city p = []
             \<and> state p = []))
   \<and> (Property_init HttpUrl kw = Inr p \<and> new_id \<notin> doc_id ` set (db ''property'') \<longrightarrow>
        fst (create_property HttpUrl db kw new_id) = Inr (str_oid new_id)
        \<and> snd (create_property HttpUrl db kw new_id) ''property''
            = db ''property'' @
                [\<lparr>doc_id = new_id,
                  doc_fields =
                    [(''title'', VStr (p_title kw)),
                     (''description'', VStr (p_description kw)),
                     (''address'', VStr (p_address kw)),
                     (''city'', VStr (p_city kw)),
                     (''state'', VStr (p_state kw)),
                     (''price'', VInt (p_price kw)),
                     (''bedrooms'', VInt (p_bedrooms kw)),
                     (''bathrooms'', VFloat (p_bathrooms kw)),
                     (''area_sqft'', VInt (p_area_sqft kw)),
                     (''status'',
                        VStr (case p_status kw of None \<Rightarrow> ''available'' | Some x \<Rightarrow> x)),
                     (''images'', VList (map VStr (images p))),
                     (''tags'',
                        VList (map VStr (case p_tags kw of None \<Rightarrow> [] | Some ts \<Rightarrow> ts)))]\<rparr>])"
proof -
  have x: "(\<exists>p. Property_init HttpUrl
            (kw\<lparr>p_title := t, p_description := d, p_address := a, p_city := c, p_state := s\<rparr>)
          = Inr p)
      \<longleftrightarrow> (\<exists>p. Property_init HttpUrl kw = Inr p)"
    by (simp add: Property_init_Inr_iff)
  have y: "title p = p_title kw \<and> description p = p_description kw \<and> address p = p_address kw
        \<and> city p = p_city kw \<and> state p = p_state kw"
    if "Property_init HttpUrl kw = Inr p"
    using that by (auto simp: Property_init_Inr_iff)
  have z: "\<exists>p. Property_init HttpUrl
                (kw\<lparr>p_title := [], p_description := [], p_address := [], p_city := [],
                    p_state := []\<rparr>) = Inr p
             \<and> title p = [] \<and> description p = [] \<and> address p = [] \<and> city p = []
             \<and> state p = []"
    if "0 \<le> p_price kw \<and> 0 \<le> p_bedrooms kw \<and> 0 \<le> p_bathrooms kw \<and> 0 \<le> p_area_sqft kw
        \<and> validate_each HttpUrl (case p_images kw of None \<Rightarrow> [] | Some us \<Rightarrow> us) \<noteq> None"
    using that by (auto simp: Property_init_Inr_iff)
  have w: "fst (create_property HttpUrl db kw new_id) = Inr (str_oid new_id)
        \<and> snd (create_property HttpUrl db kw new_id) ''property''
            = db ''property'' @
                [\<lparr>doc_id = new_id,
                  doc_fields =
                    [(''title'', VStr (p_title kw)),
                     (''description'', VStr (p_description kw)),
                     (''address'', VStr (p_address kw)),
                     (''city'', VStr (p_city kw)),
                     (''state'', VStr (p_state kw)),
                     (''price'', VInt (p_price kw)),
                     (''bedrooms'', VInt (p_bedrooms kw)),
                     (''bathrooms'', VFloat (p_bathrooms kw)),
                     (''area_sqft'', VInt (p_area_sqft kw)),
                     (''status'',
                        VStr (case p_status kw of None \<Rightarrow> ''available'' | Some x \<Rightarrow> x)),
                     (''images'', VList (map VStr (images p))),
                     (''tags'',
                        VList (map VStr (case p_tags kw of None \<Rightarrow> [] | Some ts \<Rightarrow> ts)))]\<rparr>]"
    if h: "Property_init HttpUrl kw = Inr p \<and> new_id \<notin> doc_id ` set (db ''property'')"
  proof -
    from h have i: "Property_init HttpUrl kw = Inr p"
      and f: "new_id \<notin> doc_id ` set (db ''property'')" by simp_all
    from i have sel: "title p = p_title kw" "description p = p_description kw"
      "address p = p_address kw" "city p = p_city kw" "state p = p_state kw"
      "price p = p_price kw" "bedrooms p = p_bedrooms kw" "bathrooms p = p_bathrooms kw"
      "area_sqft p = p_area_sqft kw"
      "Property.status p = (case p_status kw of None \<Rightarrow> ''available'' | Some x \<Rightarrow> x)"
      "tags p = (case p_tags kw of None \<Rightarrow> [] | Some ts \<Rightarrow> ts)"
      by (auto simp: Property_init_Inr_iff)
    have "create_property HttpUrl db kw new_id
        = (Inr (str_oid new_id),
           db(''property'' := db ''property'' @
                [\<lparr>doc_id = new_id, doc_fields = Property_dump p\<rparr>]))"
      by (simp add: create_property_def i
          create_document_fresh [where db = db and name = "''property''", OF f])
    then show ?thesis
      by (simp add: Property_dump_def sel)
  qed
  from x y z w show ?thesis by blast
qed

text \<open>The example payload, as it is and with its five text fields emptied.\<close>

theorem text_fields_unconstrained_witness:
  "Property_init Some demo_property_kwargs = Inr demo_property
   \<and> title demo_property = p_title demo_property_kwargs
   \<and> city demo_property = p_city demo_property_kwargs
   \<and> (\<exists>p. Property_init Some
            (demo_property_kwargs\<lparr>p_title := [], p_description := [], p_address := [],
               p_city := [], p_state := []\<rparr>) = Inr p
         \<and> title p = [] \<and> description p = [] \<and> address p = [] \<and> city p = []
         \<and> state p = [])
   \<and> 1 \<notin> doc_id ` set (demo_db ''property'')
   \<and> fst (create_property Some demo_db demo_property_kwargs 1) = Inr (str_oid 1)
   \<and> map doc_id (snd (create_property Some demo_db demo_property_kwargs 1) ''property'')
       = [255, 1]"
proof -
  have v1: "0 \<le> p_price demo_property_kwargs \<and> 0 \<le> p_bedrooms demo_property_kwargs
      \<and> 0 \<le> p_bathrooms demo_property_kwargs \<and> 0 \<le> p_area_sqft demo_property_kwargs
      \<and> validate_each Some (case p_images demo_property_kwargs of None \<Rightarrow> [] | Some us \<Rightarrow> us)
          \<noteq> None"
    by (simp add: demo_property_kwargs_def)
  have c1: "demo_db ''property'' = [demo_property_doc]" by (simp add: demo_db_def)
  have f: "1 \<notin> doc_id ` set (demo_db ''property'')"
    by (simp add: c1 demo_property_doc_def)
  have hf: "Property_init Some demo_property_kwargs = Inr demo_property
      \<and> 1 \<notin> doc_id ` set (demo_db ''property'')"
    using demo_property_init f by simp
  note t = text_fields_unconstrained
    [where HttpUrl = Some and kw = demo_property_kwargs and p = demo_property
       and db = demo_db and new_id = 1]
  note y = t [THEN conjunct2, THEN conjunct1, rule_format, OF demo_property_init]
  note z = t [THEN conjunct2, THEN conjunct2, THEN conjunct1, rule_format, OF v1]
  note w = t [THEN conjunct2, THEN conjunct2, THEN conjunct2, rule_format, OF hf]
  from y have a: "title demo_property = p_title demo_property_kwargs"
    and b: "city demo_property = p_city demo_property_kwargs"
    by simp_all
  from w have d: "fst (create_property Some demo_db demo_property_kwargs 1) = Inr (str_oid 1)"
    by simp
  from w have e: "map doc_id (snd (create_property Some demo_db demo_property_kwargs 1) ''property'')
       = [255, 1]"
    by (simp add: c1 demo_property_doc_def)
  from demo_property_init a b z f d e show ?thesis by (simp only: simp_thms)
qed

text \<open>
  The claim as stated fails: a payload whose five text fields are all empty validates, and
  creating the property is not rejected but stores the document with the empty texts. No
  image is given, so the URL validator is not consulted.
\<close>

theorem empty_text_accepted_counterexample:
  "p_title empty_text_kwargs = ''''
   \<and> p_description empty_text_kwargs = ''''
   \<and> p_address empty_text_kwargs = ''''
   \<and> p_city empty_text_kwargs = ''''
   \<and> p_state empty_text_kwargs = ''''
   \<and> Property_init Some empty_text_kwargs =
       Inr \<lparr>title = '''', description = '''', address = '''', city = '''', state = '''',
            price = 100000, bedrooms = 1, bathrooms = 1, area_sqft = 500,
            Property.status = ''available'', images = [], tags = []\<rparr>
   \<and> fst (create_property Some demo_db empty_text_kwargs 1) = Inr ''000000000000000000000001''
   \<and> snd (create_property Some demo_db empty_text_kwargs 1) ''property'' =
       [demo_property_doc,
        \<lparr>doc_id = 1,
          doc_fields =
            [(''title'', VStr ''''),
             (''description'', VStr ''''),
             (''address'', VStr ''''),
             (''city'', VStr ''''),
             (''state'', VStr ''''),
             (''price'', VInt 100000),
             (''bedrooms'', VInt 1),
             (''bathrooms'', VFloat 1),
             (''area_sqft'', VInt 500),
             (''status'', VStr ''available''),
             (''images'', VList []),
             (''tags'', VList [])]\<rparr>]"
proof -
  have s: "str_oid 1 = ''000000000000000000000001''" by code_simp
  have i: "Property_init Some empty_text_kwargs =
       Inr \<lparr>title = '''', description = '''', address = '''', city = '''', state = '''',
            price = 100000, bedrooms = 1, bathrooms = 1, area_sqft = 500,
            Property.status = ''available'', images = [], tags = []\<rparr>"
    by (simp add: Property_init_def empty_text_kwargs_def)
  have c1: "demo_db ''property'' = [demo_property_doc]" by (simp add: demo_db_def)
  have f: "1 \<notin> doc_id ` set (demo_db ''property'')"
    by (simp add: c1 demo_property_doc_def)
  have cp: "create_property Some demo_db empty_text_kwargs 1 =
      create_document demo_db ''property''
        (Property_dump \<lparr>title = '''', description = '''', address = '''', city = '''',
            state = '''', price = 100000, bedrooms = 1, bathrooms = 1, area_sqft = 500,
            Property.status = ''available'', images = [], tags = []\<rparr>) 1"
    by (simp add: create_property_def i)
  have r: "fst (create_property Some demo_db empty_text_kwargs 1)
      = Inr ''000000000000000000000001''"
    by (simp add: cp s create_document_fresh [where db = demo_db and name = "''property''", OF f])
  have st: "snd (create_property Some demo_db empty_text_kwargs 1) ''property'' =
       [demo_property_doc,
        \<lparr>doc_id = 1,
          doc_fields =
            [(''title'', VStr ''''),
             (''description'', VStr ''''),
             (''address'', VStr ''''),
             (''city'', VStr ''''),
             (''state'', VStr ''''),
             (''price'', VInt 100000),
             (''bedrooms'', VInt 1),
             (''bathrooms'', VFloat 1),
             (''area_sqft'', VInt 500),
             (''status'', VStr ''available''),
             (''images'', VList []),
             (''tags'', VList [])]\<rparr>]"
    by (simp add: cp c1 Property_dump_def
        create_document_fresh [where db = demo_db and name = "''property''", OF f])
  have e: "p_title empty_text_kwargs = '''' \<and> p_description empty_text_kwargs = ''''
      \<and> p_address empty_text_kwargs = '''' \<and> p_city empty_text_kwargs = ''''
      \<and> p_state empty_text_kwargs = ''''"
    by (simp add: empty_text_kwargs_def)
  from e i r st show ?thesis by (simp only: simp_thms)
qed

end
